theory Spec2Isabelle
  imports Main
begin

section \<open>Side effects shared by the components\<close>

text \<open>
  The components are React function components.  A handler is modelled as a function
  from the component's state (its \<^verbatim>\<open>useState\<close> cells) and props to the new state and
  the list of side effects it performs, in order.  An \<^verbatim>\<open>await\<close>ed call is an effect;
  what the backend answers is an argument of the model.
\<close>

datatype Variant = Default | Destructive

text \<open>The row handed to \<^verbatim>\<open>supabase.from('meetings')\<close>, with \<^term>\<open>None\<close> for \<^verbatim>\<open>null\<close>
  (and, for \<^verbatim>\<open>created_by\<close>, for \<^verbatim>\<open>undefined\<close>).\<close>

record MeetingRow =
  r_subject :: string
  r_description :: "string option"
  r_start_time :: string
  r_end_time :: string
  r_join_url :: "string option"
  r_lead_id :: "string option"
  r_contact_id :: "string option"
  r_status :: string
  r_created_by :: "string option"

record Attendee =
  a_email :: string
  a_name :: string

text \<open>The body of the \<^verbatim>\<open>create-teams-meeting\<close> invocation.\<close>

record TeamsRequest =
  q_subject :: string
  q_attendees :: "Attendee list"
  q_startTime :: string
  q_endTime :: string

datatype Effect =
    Toast string string Variant  \<comment> \<open>title, description, variant\<close>
  | ConsoleError string
  | WindowOpen string string  \<comment> \<open>URL, target\<close>
  | OnOpenChange bool
  | OnSuccess
  | DbSelect string string string  \<comment> \<open>table, columns, order column\<close>
  | DbInsert string "MeetingRow list"
  | DbUpdate string MeetingRow string  \<comment> \<open>table, row, value of \<^verbatim>\<open>.eq('id', _)\<close>\<close>
  | FunctionsInvoke string TeamsRequest

text \<open>A thrown or returned error object; \<^verbatim>\<open>message\<close> may be missing.\<close>

record JsError =
  message :: "string option"

text \<open>
  The outcome of an awaited backend call: the promise rejects, or it resolves to
  \<^verbatim>\<open>{ data, error }\<close>.
\<close>

datatype 'a Reply = Rejected JsError | Resolved "'a option" "JsError option"

section \<open>Template-driven email composer (SendEmailModal.tsx)\<close>

subsection \<open>Data\<close>

text \<open>
  A JavaScript string is modelled as a \<^typ>\<open>string\<close>.  An optional property
  (\<^verbatim>\<open>company_name?: string\<close>) is a \<^typ>\<open>string option\<close>, \<^term>\<open>None\<close> standing for
  \<^verbatim>\<open>undefined\<close>.
\<close>

record Contact =
  contact_name :: string
  company_name :: "string option"
  position :: "string option"
  email :: "string option"

text \<open>The fields \<^verbatim>\<open>id\<close>, \<^verbatim>\<open>name\<close>, \<^verbatim>\<open>subject\<close>, \<^verbatim>\<open>body\<close> of \<^verbatim>\<open>EmailTemplate\<close>.\<close>

record EmailTemplate =
  tpl_id :: string
  tpl_name :: string
  tpl_subject :: string
  tpl_body :: string

text \<open>The four \<^verbatim>\<open>useState\<close> cells of the component.\<close>

record EmailState =
  templates :: "EmailTemplate list"
  selectedTemplate :: string
  subject :: string
  body :: string

text \<open>\<^verbatim>\<open>x || ''\<close> for an optional string: \<^verbatim>\<open>undefined\<close> and \<^verbatim>\<open>''\<close> both give \<^verbatim>\<open>''\<close>.\<close>

definition or_empty :: "string option \<Rightarrow> string" where
  "or_empty x = (case x of None \<Rightarrow> [] | Some s \<Rightarrow> s)"

subsection \<open>\<^verbatim>\<open>String.prototype.replace\<close> with a global literal pattern\<close>

fun starts_with :: "'a list \<Rightarrow> 'a list \<Rightarrow> bool" where
  "starts_with [] s = True"
| "starts_with (p # ps) [] = False"
| "starts_with (p # ps) (x # xs) = (p = x \<and> starts_with ps xs)"

text \<open>
  The replacement argument of \<^verbatim>\<open>replace\<close> is a string, so it is a template in which
  \<^verbatim>\<open>$$\<close> stands for a dollar sign, \<^verbatim>\<open>$&\<close> for the matched text, \<^verbatim>\<open>$`\<close> for the
  part of the input before the match and \<^verbatim>\<open>$'\<close> for the part after it.  The
  patterns of this program have no capture groups, so \<^verbatim>\<open>$1\<close>, \<^verbatim>\<open>$<name>\<close> and a
  dollar sign before any other character stay as they are.
  Arguments: matched text, input before the match, input after the match, template.
\<close>

fun GetSubstitution :: "string \<Rightarrow> string \<Rightarrow> string \<Rightarrow> string \<Rightarrow> string" where
  "GetSubstitution m bef aft [] = []"
| "GetSubstitution m bef aft [c] = [c]"
| "GetSubstitution m bef aft (c # d # t) =
     (if c = CHR ''$'' then
        (if d = CHR ''$'' then CHR ''$'' # GetSubstitution m bef aft t
         else if d = CHR ''&'' then m @ GetSubstitution m bef aft t
         else if d = CHR 0x60 then bef @ GetSubstitution m bef aft t
         else if d = CHR 0x27 then aft @ GetSubstitution m bef aft t
         else c # GetSubstitution m bef aft (d # t))
      else c # GetSubstitution m bef aft (d # t))"

text \<open>
  \<^verbatim>\<open>str.replace(/p/g, v)\<close> for a literal, non-empty pattern \<open>p\<close>: the input is scanned
  from the left; at a match the expanded template is emitted and the scan goes on
  behind the match, otherwise one character is copied.  \<open>seen\<close> is the part of the
  input already scanned.
\<close>

fun replace_scan :: "string \<Rightarrow> string \<Rightarrow> string \<Rightarrow> string \<Rightarrow> string" where
  "replace_scan p v seen [] = []"
| "replace_scan p v seen (x # xs) =
     (if starts_with p (x # xs)
      then GetSubstitution p seen (drop (length p) (x # xs)) v
             @ replace_scan p v (seen @ p) (drop (length p - 1) xs)
      else x # replace_scan p v (seen @ [x]) xs)"

definition replace_all :: "string \<Rightarrow> string \<Rightarrow> string \<Rightarrow> string" where
  "replace_all p v str = replace_scan p v [] str"

subsection \<open>\<^verbatim>\<open>replaceVariables\<close> and \<^verbatim>\<open>handleTemplateSelect\<close>\<close>

definition ph_contact_name :: string where "ph_contact_name = ''{{contact_name}}''"
definition ph_company_name :: string where "ph_company_name = ''{{company_name}}''"
definition ph_position :: string where "ph_position = ''{{position}}''"
definition ph_email :: string where "ph_email = ''{{email}}''"

definition replaceVariables :: "string \<Rightarrow> Contact option \<Rightarrow> string" where
  "replaceVariables text contactData =
     (case contactData of
        None \<Rightarrow> text
      | Some c \<Rightarrow>
          replace_all ph_email (or_empty (email c))
            (replace_all ph_position (or_empty (position c))
              (replace_all ph_company_name (or_empty (company_name c))
                (replace_all ph_contact_name (contact_name c) text))))"

definition handleTemplateSelect :: "Contact option \<Rightarrow> string \<Rightarrow> EmailState \<Rightarrow> EmailState" where
  "handleTemplateSelect contact templateId st =
     (let st1 = st\<lparr>selectedTemplate := templateId\<rparr> in
      if templateId = ''none'' then st1\<lparr>subject := [], body := []\<rparr>
      else
        (case find (\<lambda>t. tpl_id t = templateId) (templates st) of
           Some template \<Rightarrow>
             st1\<lparr>subject := replaceVariables (tpl_subject template) contact,
                 body := replaceVariables (tpl_body template) contact\<rparr>
         | None \<Rightarrow> st1))"

subsection \<open>A template as the specification reads it\<close>

text \<open>
  For the specification a template is a text with tokens \<^verbatim>\<open>{{name}}\<close> in it, and
  substitution puts the contact's attribute in place of each token with a recognized
  name, all at once.  A piece is a character or a token; \<open>render\<close> writes the pieces
  out, \<open>expand\<close> writes them out with the attributes in place of the recognized tokens.
\<close>

datatype Piece = Chr char | Token string

fun render_piece :: "Piece \<Rightarrow> string" where
  "render_piece (Chr x) = [x]"
| "render_piece (Token name) = ''{{'' @ name @ ''}}''"

definition render :: "Piece list \<Rightarrow> string" where
  "render ps = concat (map render_piece ps)"

fun expand_piece :: "Contact \<Rightarrow> Piece \<Rightarrow> string" where
  "expand_piece c (Chr x) = [x]"
| "expand_piece c (Token name) =
     (if name = ''contact_name'' then contact_name c
      else if name = ''company_name'' then or_empty (company_name c)
      else if name = ''position'' then or_empty (position c)
      else if name = ''email'' then or_empty (email c)
      else ''{{'' @ name @ ''}}'')"

definition expand :: "Contact \<Rightarrow> Piece list \<Rightarrow> string" where
  "expand c ps = concat (map (expand_piece c) ps)"

text \<open>
  The pieces are well formed when the name of a token has no brace in it and an opening
  brace that is a piece of its own stands neither before a token nor before another
  opening brace, so that the tokens are the only places where \<^verbatim>\<open>{{\<close> is read.
\<close>

fun well_formed :: "Piece list \<Rightarrow> bool" where
  "well_formed [] = True"
| "well_formed (Token name # ps) =
     (CHR ''{'' \<notin> set name \<and> CHR ''}'' \<notin> set name \<and> well_formed ps)"
| "well_formed [Chr x] = True"
| "well_formed (Chr x # Token name # ps) = (x \<noteq> CHR ''{'' \<and> well_formed (Token name # ps))"
| "well_formed (Chr x # Chr y # ps) =
     (\<not> (x = CHR ''{'' \<and> y = CHR ''{'') \<and> well_formed (Chr y # ps))"

text \<open>The pieces after the tokens of one name have been replaced by a value.\<close>

fun subst_piece :: "string \<Rightarrow> string \<Rightarrow> Piece \<Rightarrow> Piece list" where
  "subst_piece name v (Chr x) = [Chr x]"
| "subst_piece name v (Token n) = (if n = name then map Chr v else [Token n])"

definition subst :: "string \<Rightarrow> string \<Rightarrow> Piece list \<Rightarrow> Piece list" where
  "subst name v ps = concat (map (subst_piece name v) ps)"

text \<open>The same with pieces for the value.\<close>

definition splice :: "string \<Rightarrow> Piece list \<Rightarrow> Piece list \<Rightarrow> Piece list" where
  "splice name vs ps = concat (map (\<lambda>p. if p = Token name then vs else [p]) ps)"

text \<open>A value that \<^verbatim>\<open>replace\<close> inserts as it is and that opens no token.\<close>

definition plain :: "string \<Rightarrow> bool" where
  "plain v \<longleftrightarrow> CHR ''$'' \<notin> set v \<and> CHR ''{'' \<notin> set v"

definition plain_contact :: "Contact \<Rightarrow> bool" where
  "plain_contact c \<longleftrightarrow>
     plain (contact_name c) \<and> plain (or_empty (company_name c))
     \<and> plain (or_empty (position c)) \<and> plain (or_empty (email c))"

subsection \<open>Opening the dialog and loading the templates\<close>

text \<open>The body of the effect that runs when \<^verbatim>\<open>open\<close> has become true.\<close>

definition email_on_open :: "EmailState \<Rightarrow> EmailState \<times> Effect list" where
  "email_on_open st =
     (st\<lparr>selectedTemplate := [], subject := [], body := []\<rparr>,
      [DbSelect ''email_templates'' ''id, name, subject, body'' ''name''])"

text \<open>\<^verbatim>\<open>fetchTemplates\<close> from the point where the awaited query has settled.\<close>

definition fetchTemplates_settle ::
    "EmailTemplate list Reply \<Rightarrow> EmailState \<Rightarrow> EmailState \<times> Effect list" where
  "fetchTemplates_settle reply st =
     (case reply of
        Rejected e \<Rightarrow> (st, [ConsoleError ''Error fetching templates:''])
      | Resolved data err \<Rightarrow>
          (case err of
             Some e \<Rightarrow> (st, [ConsoleError ''Error fetching templates:''])
           | None \<Rightarrow> (st\<lparr>templates := (case data of None \<Rightarrow> [] | Some d \<Rightarrow> d)\<rparr>, [])))"

subsection \<open>\<^verbatim>\<open>URLSearchParams\<close>\<close>

text \<open>
  \<^verbatim>\<open>URLSearchParams.prototype.toString\<close> is the \<^verbatim>\<open>application/x-www-form-urlencoded\<close>
  serializer: names and values are encoded in UTF-8, a space becomes \<^verbatim>\<open>+\<close>, ASCII
  letters and digits and \<^verbatim>\<open>* - . _\<close> stay, every other byte becomes \<^verbatim>\<open>%XX\<close> with
  upper-case hexadecimal digits; pairs are joined with \<^verbatim>\<open>&\<close>.  A \<^typ>\<open>char\<close> is a code
  unit below 256, so its UTF-8 encoding has one or two bytes.
\<close>

definition utf8_encode :: "char \<Rightarrow> nat list" where
  "utf8_encode c =
     (let n = of_char c :: nat in
      if n < 128 then [n] else [192 + n div 64, 128 + n mod 64])"

definition hex_digit :: "nat \<Rightarrow> char" where
  "hex_digit d = (if d < 10 then char_of (48 + d) else char_of (55 + d))"

definition urlencoded_keep :: "nat \<Rightarrow> bool" where
  "urlencoded_keep b \<longleftrightarrow>
     (48 \<le> b \<and> b \<le> 57) \<or> (65 \<le> b \<and> b \<le> 90) \<or> (97 \<le> b \<and> b \<le> 122)
     \<or> b = 42 \<or> b = 45 \<or> b = 46 \<or> b = 95"

definition urlencode_byte :: "nat \<Rightarrow> string" where
  "urlencode_byte b =
     (if b = 32 then ''+''
      else if urlencoded_keep b then [char_of b]
      else [CHR ''%'', hex_digit (b div 16), hex_digit (b mod 16)])"

definition urlencode :: "string \<Rightarrow> string" where
  "urlencode s = concat (map urlencode_byte (concat (map utf8_encode s)))"

text \<open>The characters that the serializer writes.\<close>

definition url_safe :: "char \<Rightarrow> bool" where
  "url_safe c \<longleftrightarrow> urlencoded_keep (of_char c) \<or> c = CHR ''+'' \<or> c = CHR ''%''"

fun join_amp :: "string list \<Rightarrow> string" where
  "join_amp [] = []"
| "join_amp [x] = x"
| "join_amp (x # y # zs) = x @ ''&'' @ join_amp (y # zs)"

definition params_toString :: "(string \<times> string) list \<Rightarrow> string" where
  "params_toString ps = join_amp (map (\<lambda>(k, v). urlencode k @ ''='' @ urlencode v) ps)"

text \<open>\<^verbatim>\<open>URLSearchParams.prototype.set\<close>: the first pair of that name gets the value and
  later ones go; a new name is appended.\<close>

fun params_set :: "string \<Rightarrow> string \<Rightarrow> (string \<times> string) list \<Rightarrow> (string \<times> string) list" where
  "params_set k v [] = [(k, v)]"
| "params_set k v ((k', v') # ps) =
     (if k' = k then (k, v) # filter (\<lambda>(n, _). n \<noteq> k) ps else (k', v') # params_set k v ps)"

subsection \<open>\<^verbatim>\<open>handleSendEmail\<close>\<close>

definition mailtoParams :: "EmailState \<Rightarrow> (string \<times> string) list" where
  "mailtoParams st =
     (let ps0 = [];
          ps1 = (if subject st \<noteq> [] then params_set ''subject'' (subject st) ps0 else ps0);
          ps2 = (if body st \<noteq> [] then params_set ''body'' (body st) ps1 else ps1)
      in ps2)"

definition mailtoLink :: "string \<Rightarrow> EmailState \<Rightarrow> string" where
  "mailtoLink address st = ''mailto:'' @ address @ ''?'' @ params_toString (mailtoParams st)"

text \<open>\<^verbatim>\<open>contact?.email\<close> when it is truthy.\<close>

definition contact_email :: "Contact option \<Rightarrow> string option" where
  "contact_email contact =
     (case contact of
        None \<Rightarrow> None
      | Some c \<Rightarrow> (case email c of None \<Rightarrow> None | Some e \<Rightarrow> if e = [] then None else Some e))"

definition handleSendEmail :: "Contact option \<Rightarrow> EmailState \<Rightarrow> Effect list" where
  "handleSendEmail contact st =
     (case contact_email contact of
        None \<Rightarrow>
          [Toast ''No email address'' ''This contact doesn't have an email address'' Destructive]
      | Some address \<Rightarrow>
          [WindowOpen (mailtoLink address st) ''_blank'',
           Toast ''Email Client Opened''
             ''Your default email client should open with the pre-filled template'' Default,
           OnOpenChange False])"

subsection \<open>Example data\<close>

text \<open>Two templates, with their texts in pieces, and a contact.\<close>

definition example_templates :: "EmailTemplate list" where
  "example_templates =
     [\<lparr>tpl_id = ''t-1'', tpl_name = ''Greeting'', tpl_subject = ''Hi {{contact_name}}'',
       tpl_body = []\<rparr>,
      \<lparr>tpl_id = ''t-2'', tpl_name = ''Introduction'',
       tpl_subject = ''Hello {{contact_name}} from {{company_name}}'',
       tpl_body = ''{{greeting}} {{email}}, {{email}}''\<rparr>]"

definition example_email_state :: EmailState where
  "example_email_state =
     \<lparr>templates = example_templates, selectedTemplate = [], subject = ''Draft'',
      body = ''Some text''\<rparr>"

definition greeting_pieces :: "Piece list" where
  "greeting_pieces = map Chr ''Hi '' @ [Token ''contact_name'']"

definition introduction_subject_pieces :: "Piece list" where
  "introduction_subject_pieces =
     map Chr ''Hello '' @ Token ''contact_name'' # map Chr '' from '' @ [Token ''company_name'']"

definition introduction_body_pieces :: "Piece list" where
  "introduction_body_pieces =
     [Token ''greeting'', Chr CHR '' '', Token ''email'', Chr CHR '','', Chr CHR '' '',
      Token ''email'']"

definition example_contact :: Contact where
  "example_contact =
     \<lparr>contact_name = ''Jane'', company_name = None, position = Some ''CTO'',
      email = Some ''jane@acme.test''\<rparr>"

text \<open>A text in which a token stands inside what becomes a token once it is replaced,
  and a contact whose name completes it.\<close>

definition nested_pieces :: "Piece list" where
  "nested_pieces = Chr CHR ''{'' # Chr CHR ''{'' # Token ''contact_name'' # map Chr ''mail}}''"

definition short_named_contact :: Contact where
  "short_named_contact =
     \<lparr>contact_name = ''e'', company_name = None, position = None,
      email = Some ''jane@acme.test''\<rparr>"

text \<open>A contact whose name has dollar signs in it.\<close>

definition dollar_named_contact :: Contact where
  "dollar_named_contact =
     \<lparr>contact_name = ''Ca$$h'', company_name = None, position = None,
      email = Some ''jane@acme.test''\<rparr>"

text \<open>A contact whose name is itself a token.\<close>

definition token_named_contact :: Contact where
  "token_named_contact =
     \<lparr>contact_name = ''{{email}}'', company_name = None, position = None,
      email = Some ''jane@acme.test''\<rparr>"

section \<open>Meeting composer (MeetingModal)\<close>

subsection \<open>Data\<close>

text \<open>
  The interface \<^verbatim>\<open>Meeting\<close>; \<^verbatim>\<open>description?: string | null\<close> and the like are
  \<^typ>\<open>string option\<close>, \<^term>\<open>None\<close> standing for \<^verbatim>\<open>null\<close> and \<^verbatim>\<open>undefined\<close>.  The
  field \<^verbatim>\<open>attendees\<close> is never read and is left out.
\<close>

record Meeting =
  m_id :: string
  m_subject :: string
  m_description :: "string option"
  m_start_time :: string
  m_end_time :: string
  m_join_url :: "string option"
  m_lead_id :: "string option"
  m_contact_id :: "string option"
  m_status :: string

record Lead =
  lead_id :: string
  lead_name :: string
  lead_email :: "string option"

text \<open>The interface \<^verbatim>\<open>Contact\<close> of the meeting composer (\<^verbatim>\<open>id\<close>, \<^verbatim>\<open>contact_name\<close>,
  \<^verbatim>\<open>email\<close>), which is not the one of the email composer.\<close>

record ContactRef =
  cref_id :: string
  cref_contact_name :: string
  cref_email :: "string option"

record FormData =
  f_subject :: string
  f_description :: string
  f_start_time :: string
  f_end_time :: string
  f_join_url :: string
  f_lead_id :: string
  f_contact_id :: string
  f_status :: string

record MeetingState =
  loading :: bool
  creatingTeamsMeeting :: bool
  leads :: "Lead list"
  contacts :: "ContactRef list"
  formData :: FormData

text \<open>
  The props that the handlers read.  React compares the dependencies of an effect by
  identity, so the object passed as \<^verbatim>\<open>meeting\<close> comes with a token for its identity.
\<close>

record MeetingProps =
  p_open :: bool
  p_meeting :: "Meeting option"
  p_meeting_ident :: nat

definition initial_formData :: FormData where
  "initial_formData =
     \<lparr>f_subject = [], f_description = [], f_start_time = [], f_end_time = [],
      f_join_url = [], f_lead_id = [], f_contact_id = [], f_status = ''scheduled''\<rparr>"

definition initial_MeetingState :: MeetingState where
  "initial_MeetingState =
     \<lparr>loading = False, creatingTeamsMeeting = False, leads = [], contacts = [],
      formData = initial_formData\<rparr>"

subsection \<open>\<^verbatim>\<open>Date\<close>\<close>

text \<open>
  A \<^verbatim>\<open>Date\<close> is its time value, the milliseconds since the epoch, as an \<^typ>\<open>int\<close>
  (the clock gives a finite one, far from the ends of the range).  The local time zone
  is what ECMAScript calls \<^verbatim>\<open>LocalTZA\<close>: the offset in milliseconds at a UTC time
  value and at a local one.
\<close>

record Zone =
  tza_at_utc :: "int \<Rightarrow> int"
  tza_at_local :: "int \<Rightarrow> int"

definition msPerDay :: int where "msPerDay = 86400000"
definition msPerHour :: int where "msPerHour = 3600000"
definition msPerMinute :: int where "msPerMinute = 60000"
definition msPerSecond :: int where "msPerSecond = 1000"

definition Day :: "int \<Rightarrow> int" where "Day t = t div msPerDay"
definition HourFromTime :: "int \<Rightarrow> int" where "HourFromTime t = (t div msPerHour) mod 24"
definition MinFromTime :: "int \<Rightarrow> int" where "MinFromTime t = (t div msPerMinute) mod 60"
definition SecFromTime :: "int \<Rightarrow> int" where "SecFromTime t = (t div msPerSecond) mod 60"
definition msFromTime :: "int \<Rightarrow> int" where "msFromTime t = t mod msPerSecond"

definition LocalTime :: "Zone \<Rightarrow> int \<Rightarrow> int" where
  "LocalTime z t = t + tza_at_utc z t"

definition UTC :: "Zone \<Rightarrow> int \<Rightarrow> int" where
  "UTC z t = t - tza_at_local z t"

text \<open>\<^verbatim>\<open>d.setHours(d.getHours() + 1, 0, 0, 0)\<close>: the new time value of \<open>d\<close>.\<close>

definition setHours_next :: "Zone \<Rightarrow> int \<Rightarrow> int" where
  "setHours_next z t =
     (let local = LocalTime z t;
          hour = HourFromTime local + 1
      in UTC z (Day local * msPerDay + hour * msPerHour))"

text \<open>Year, month (1 to 12) and day of the month of a day number (days since the epoch)
  in the proleptic Gregorian calendar.\<close>

definition civil_from_days :: "int \<Rightarrow> int \<times> int \<times> int" where
  "civil_from_days days =
     (let z = days + 719468;
          era = z div 146097;
          doe = z mod 146097;
          yoe = (doe - doe div 1460 + doe div 36524 - doe div 146096) div 365;
          y = yoe + era * 400;
          doy = doe - (365 * yoe + yoe div 4 - yoe div 100);
          mp = (5 * doy + 2) div 153;
          d = doy - (153 * mp + 2) div 5 + 1;
          m = (if mp < 10 then mp + 3 else mp - 9)
      in (if m \<le> 2 then y + 1 else y, m, d))"

fun pad_num :: "nat \<Rightarrow> nat \<Rightarrow> string" where
  "pad_num 0 n = []"
| "pad_num (Suc w) n = pad_num w (n div 10) @ [char_of (48 + n mod 10)]"

definition year_string :: "int \<Rightarrow> string" where
  "year_string y =
     (if 0 \<le> y \<and> y \<le> 9999 then pad_num 4 (nat y)
      else (if y < 0 then ''-'' else ''+'') @ pad_num 6 (nat \<bar>y\<bar>))"

definition toISOString :: "int \<Rightarrow> string" where
  "toISOString t =
     (case civil_from_days (Day t) of (y, m, d) \<Rightarrow>
        year_string y @ ''-'' @ pad_num 2 (nat m) @ ''-'' @ pad_num 2 (nat d) @ ''T''
        @ pad_num 2 (nat (HourFromTime t)) @ '':'' @ pad_num 2 (nat (MinFromTime t)) @ '':''
        @ pad_num 2 (nat (SecFromTime t)) @ ''.'' @ pad_num 3 (nat (msFromTime t)) @ ''Z'')"

subsection \<open>The effect that runs when the dialog opens\<close>

definition or_scheduled :: "string \<Rightarrow> string" where
  "or_scheduled s = (if s = [] then ''scheduled'' else s)"

definition form_of_meeting :: "Meeting \<Rightarrow> FormData" where
  "form_of_meeting meeting =
     \<lparr>f_subject = m_subject meeting,
      f_description = or_empty (m_description meeting),
      f_start_time = take 16 (m_start_time meeting),
      f_end_time = take 16 (m_end_time meeting),
      f_join_url = or_empty (m_join_url meeting),
      f_lead_id = or_empty (m_lead_id meeting),
      f_contact_id = or_empty (m_contact_id meeting),
      f_status = or_scheduled (m_status meeting)\<rparr>"

definition form_for_new :: "Zone \<Rightarrow> int \<Rightarrow> FormData" where
  "form_for_new z clock =
     (let now = setHours_next z clock;
          end = now + 60 * 60 * 1000
      in \<lparr>f_subject = [], f_description = [],
          f_start_time = take 16 (toISOString now),
          f_end_time = take 16 (toISOString end),
          f_join_url = [], f_lead_id = [], f_contact_id = [], f_status = ''scheduled''\<rparr>)"

definition fetchLeadsAndContacts_calls :: "Effect list" where
  "fetchLeadsAndContacts_calls =
     [DbSelect ''leads'' ''id, lead_name, email'' ''lead_name'',
      DbSelect ''contacts'' ''id, contact_name, email'' ''contact_name'']"

text \<open>The body of \<^verbatim>\<open>useEffect(..., [open, meeting])\<close>; \<open>clock\<close> is what \<^verbatim>\<open>new Date()\<close>
  reads.\<close>

definition open_effect ::
    "Zone \<Rightarrow> int \<Rightarrow> MeetingProps \<Rightarrow> MeetingState \<Rightarrow> MeetingState \<times> Effect list" where
  "open_effect z clock props st =
     (if p_open props then
        (st\<lparr>formData :=
             (case p_meeting props of
                Some meeting \<Rightarrow> form_of_meeting meeting
              | None \<Rightarrow> form_for_new z clock)\<rparr>,
         fetchLeadsAndContacts_calls)
      else (st, []))"

text \<open>
  \<^verbatim>\<open>fetchLeadsAndContacts\<close> from the point where \<^verbatim>\<open>Promise.all\<close> has settled: it
  rejects when one of the two queries does, and otherwise gives both results, whose
  \<^verbatim>\<open>error\<close> the code does not read.
\<close>

datatype FetchOutcome =
    FetchRejected JsError
  | FetchResolved "Lead list option \<times> JsError option" "ContactRef list option \<times> JsError option"
      \<comment> \<open>\<^verbatim>\<open>data\<close> and \<^verbatim>\<open>error\<close> of \<^verbatim>\<open>leadsRes\<close> and of \<^verbatim>\<open>contactsRes\<close>\<close>

definition fetchLeadsAndContacts_settle ::
    "FetchOutcome \<Rightarrow> MeetingState \<Rightarrow> MeetingState \<times> Effect list" where
  "fetchLeadsAndContacts_settle outcome st =
     (case outcome of
        FetchRejected e \<Rightarrow> (st, [ConsoleError ''Error fetching leads/contacts:''])
      | FetchResolved leadsRes contactsRes \<Rightarrow>
          (let st1 = (case fst leadsRes of Some d \<Rightarrow> st\<lparr>leads := d\<rparr> | None \<Rightarrow> st);
               st2 = (case fst contactsRes of Some d \<Rightarrow> st1\<lparr>contacts := d\<rparr> | None \<Rightarrow> st1)
           in (st2, [])))"

subsection \<open>\<^verbatim>\<open>createTeamsMeeting\<close>\<close>

definition required_missing :: "FormData \<Rightarrow> bool" where
  "required_missing fd \<longleftrightarrow> f_subject fd = [] \<or> f_start_time fd = [] \<or> f_end_time fd = []"

definition lead_attendee :: "MeetingState \<Rightarrow> Attendee list" where
  "lead_attendee st =
     (if f_lead_id (formData st) \<noteq> [] then
        (case find (\<lambda>l. lead_id l = f_lead_id (formData st)) (leads st) of
           Some lead \<Rightarrow>
             (case lead_email lead of
                Some e \<Rightarrow> if e \<noteq> [] then [\<lparr>a_email = e, a_name = lead_name lead\<rparr>] else []
              | None \<Rightarrow> [])
         | None \<Rightarrow> [])
      else [])"

definition contact_attendee :: "MeetingState \<Rightarrow> Attendee list" where
  "contact_attendee st =
     (if f_contact_id (formData st) \<noteq> [] then
        (case find (\<lambda>c. cref_id c = f_contact_id (formData st)) (contacts st) of
           Some contact \<Rightarrow>
             (case cref_email contact of
                Some e \<Rightarrow> if e \<noteq> [] then [\<lparr>a_email = e, a_name = cref_contact_name contact\<rparr>] else []
              | None \<Rightarrow> [])
         | None \<Rightarrow> [])
      else [])"

definition teams_request :: "MeetingState \<Rightarrow> TeamsRequest" where
  "teams_request st =
     \<lparr>q_subject = f_subject (formData st),
      q_attendees = lead_attendee st @ contact_attendee st,
      q_startTime = f_start_time (formData st),
      q_endTime = f_end_time (formData st)\<rparr>"

definition message_or :: "JsError \<Rightarrow> string \<Rightarrow> string" where
  "message_or e fallback =
     (case message e of None \<Rightarrow> fallback | Some m \<Rightarrow> if m = [] then fallback else m)"

text \<open>
  \<^verbatim>\<open>createTeamsMeeting\<close> from the point where the awaited invocation has settled.  The
  data of the reply is \<^verbatim>\<open>data?.meeting?.joinUrl\<close>.  The form is updated with
  \<^verbatim>\<open>setFormData(prev => ...)\<close>, that is, on the state of that moment.
\<close>

definition createTeamsMeeting_settle ::
    "string Reply \<Rightarrow> MeetingState \<Rightarrow> MeetingState \<times> Effect list" where
  "createTeamsMeeting_settle reply st =
     (let failed = (\<lambda>e.
            (st\<lparr>creatingTeamsMeeting := False\<rparr>,
             [ConsoleError ''Error creating Teams meeting:'',
              Toast ''Error'' (message_or e ''Failed to create Teams meeting'') Destructive]))
      in case reply of
           Rejected e \<Rightarrow> failed e
         | Resolved data err \<Rightarrow>
             (case err of
                Some e \<Rightarrow> failed e
              | None \<Rightarrow>
                  (case data of
                     Some joinUrl \<Rightarrow>
                       if joinUrl \<noteq> [] then
                         (st\<lparr>formData := (formData st)\<lparr>f_join_url := joinUrl\<rparr>,
                              creatingTeamsMeeting := False\<rparr>,
                          [Toast ''Teams Meeting Created'' ''Meeting link has been generated''
                             Default])
                       else (st\<lparr>creatingTeamsMeeting := False\<rparr>, [])
                   | None \<Rightarrow> (st\<lparr>creatingTeamsMeeting := False\<rparr>, []))))"

text \<open>The whole handler, the reply of the remote function being \<open>reply\<close>.\<close>

definition createTeamsMeeting ::
    "string Reply \<Rightarrow> MeetingState \<Rightarrow> MeetingState \<times> Effect list" where
  "createTeamsMeeting reply st =
     (if required_missing (formData st) then
        (st, [Toast ''Missing fields''
                ''Please fill in subject, start time and end time first'' Destructive])
      else
        (let call = FunctionsInvoke ''create-teams-meeting'' (teams_request st);
             (st', effects) = createTeamsMeeting_settle reply (st\<lparr>creatingTeamsMeeting := True\<rparr>)
         in (st', call # effects)))"

subsection \<open>\<^verbatim>\<open>handleSubmit\<close>\<close>

text \<open>\<^verbatim>\<open>x || null\<close> for a string.\<close>

definition or_null :: "string \<Rightarrow> string option" where
  "or_null s = (if s = [] then None else Some s)"

text \<open>\<open>user\<close> is \<^verbatim>\<open>user?.id\<close>.\<close>

definition meetingData :: "string option \<Rightarrow> FormData \<Rightarrow> MeetingRow" where
  "meetingData user fd =
     \<lparr>r_subject = f_subject fd,
      r_description = or_null (f_description fd),
      r_start_time = f_start_time fd,
      r_end_time = f_end_time fd,
      r_join_url = or_null (f_join_url fd),
      r_lead_id = or_null (f_lead_id fd),
      r_contact_id = or_null (f_contact_id fd),
      r_status = f_status fd,
      r_created_by = user\<rparr>"

definition write_call :: "MeetingProps \<Rightarrow> MeetingRow \<Rightarrow> Effect" where
  "write_call props row =
     (case p_meeting props of
        Some meeting \<Rightarrow> DbUpdate ''meetings'' row (m_id meeting)
      | None \<Rightarrow> DbInsert ''meetings'' [row])"

text \<open>The reply of the insert or update carries no data that is read.\<close>

definition reply_error :: "'a Reply \<Rightarrow> JsError option" where
  "reply_error r = (case r of Rejected e \<Rightarrow> Some e | Resolved data err \<Rightarrow> err)"

definition handleSubmit_settle ::
    "MeetingProps \<Rightarrow> unit Reply \<Rightarrow> MeetingState \<Rightarrow> MeetingState \<times> Effect list" where
  "handleSubmit_settle props reply st =
     (case reply_error reply of
        Some e \<Rightarrow>
          (st\<lparr>loading := False\<rparr>,
           [ConsoleError ''Error saving meeting:'',
            Toast ''Error'' (message_or e ''Failed to save meeting'') Destructive])
      | None \<Rightarrow>
          (st\<lparr>loading := False\<rparr>,
           [Toast ''Success''
              (case p_meeting props of
                 Some meeting \<Rightarrow> ''Meeting updated successfully''
               | None \<Rightarrow> ''Meeting created successfully'') Default,
            OnSuccess,
            OnOpenChange False]))"

definition handleSubmit ::
    "MeetingProps \<Rightarrow> string option \<Rightarrow> unit Reply \<Rightarrow> MeetingState \<Rightarrow> MeetingState \<times> Effect list" where
  "handleSubmit props user reply st =
     (if required_missing (formData st) then
        (st, [Toast ''Missing fields'' ''Please fill in all required fields'' Destructive])
      else
        (let call = write_call props (meetingData user (formData st));
             (st', effects) = handleSubmit_settle props reply (st\<lparr>loading := True\<rparr>)
         in (st', call # effects)))"

subsection \<open>A session of the dialog\<close>

text \<open>
  The form's \<^verbatim>\<open>onChange\<close> and \<^verbatim>\<open>onValueChange\<close> handlers; the two link selectors
  store the empty string for their entry \<^verbatim>\<open>none\<close>.
\<close>

datatype Field =
  Subject | StartTime | EndTime | LeadId | ContactId | Description | JoinUrl | Status

definition none_to_empty :: "string \<Rightarrow> string" where
  "none_to_empty v = (if v = ''none'' then [] else v)"

fun change :: "Field \<Rightarrow> string \<Rightarrow> FormData \<Rightarrow> FormData" where
  "change Subject v fd = fd\<lparr>f_subject := v\<rparr>"
| "change StartTime v fd = fd\<lparr>f_start_time := v\<rparr>"
| "change EndTime v fd = fd\<lparr>f_end_time := v\<rparr>"
| "change LeadId v fd = fd\<lparr>f_lead_id := none_to_empty v\<rparr>"
| "change ContactId v fd = fd\<lparr>f_contact_id := none_to_empty v\<rparr>"
| "change Description v fd = fd\<lparr>f_description := v\<rparr>"
| "change JoinUrl v fd = fd\<lparr>f_join_url := v\<rparr>"
| "change Status v fd = fd\<lparr>f_status := v\<rparr>"

text \<open>
  What happens to a mounted dialog: its parent renders it with props (at a clock
  reading), the user changes a field, presses one of the two buttons (the backend's
  reply is part of the event), or the fetch of the reference lists settles.
\<close>

datatype Event =
    Render MeetingProps int
  | Change Field string
  | Submit "unit Reply"
  | CreateTeams "string Reply"
  | Fetched FetchOutcome

record Dialog =
  props :: MeetingProps
  state :: MeetingState

text \<open>The first render runs the effect; a later one runs it when \<^verbatim>\<open>open\<close> or
  \<^verbatim>\<open>meeting\<close> is not the same as in the render before.\<close>

definition mount :: "Zone \<Rightarrow> MeetingProps \<Rightarrow> int \<Rightarrow> Dialog \<times> Effect list" where
  "mount z pr clock =
     (let (st, effects) = open_effect z clock pr initial_MeetingState
      in (\<lparr>props = pr, state = st\<rparr>, effects))"

definition deps_changed :: "MeetingProps \<Rightarrow> MeetingProps \<Rightarrow> bool" where
  "deps_changed old new \<longleftrightarrow>
     p_open new \<noteq> p_open old \<or> p_meeting_ident new \<noteq> p_meeting_ident old"

fun step :: "Zone \<Rightarrow> string option \<Rightarrow> Event \<Rightarrow> Dialog \<Rightarrow> Dialog \<times> Effect list" where
  "step z user (Render pr clock) d =
     (if deps_changed (props d) pr then
        (let (st, effects) = open_effect z clock pr (state d)
         in (\<lparr>props = pr, state = st\<rparr>, effects))
      else (d\<lparr>props := pr\<rparr>, []))"
| "step z user (Change field v) d =
     (d\<lparr>state := (state d)\<lparr>formData := change field v (formData (state d))\<rparr>\<rparr>, [])"
| "step z user (Submit reply) d =
     (let (st, effects) = handleSubmit (props d) user reply (state d)
      in (d\<lparr>state := st\<rparr>, effects))"
| "step z user (CreateTeams reply) d =
     (let (st, effects) = createTeamsMeeting reply (state d)
      in (d\<lparr>state := st\<rparr>, effects))"
| "step z user (Fetched outcome) d =
     (let (st, effects) = fetchLeadsAndContacts_settle outcome (state d)
      in (d\<lparr>state := st\<rparr>, effects))"

text \<open>A session: the dialog after the events, and the effects of each event.\<close>

fun run :: "Zone \<Rightarrow> string option \<Rightarrow> Event list \<Rightarrow> Dialog \<Rightarrow> Dialog \<times> Effect list list" where
  "run z user [] d = (d, [])"
| "run z user (e # es) d =
     (let (d1, effects) = step z user e d;
          (d2, rest) = run z user es d1
      in (d2, effects # rest))"

text \<open>An event that leaves the record passed as \<^verbatim>\<open>meeting\<close> as it is: every event but
  a render with another one.\<close>

fun keeps_meeting :: "Meeting option \<Rightarrow> Event \<Rightarrow> bool" where
  "keeps_meeting m (Render pr clock) = (p_meeting pr = m)"
| "keeps_meeting m _ = True"

text \<open>The calls that write a meeting.\<close>

fun is_insert :: "Effect \<Rightarrow> bool" where
  "is_insert (DbInsert table rows) = True"
| "is_insert _ = False"

fun is_update :: "Effect \<Rightarrow> bool" where
  "is_update (DbUpdate table row key) = True"
| "is_update _ = False"

fun is_write :: "Effect \<Rightarrow> bool" where
  "is_write (DbInsert table rows) = True"
| "is_write (DbUpdate table row key) = True"
| "is_write _ = False"

fun is_invoke :: "Effect \<Rightarrow> bool" where
  "is_invoke (FunctionsInvoke name request) = True"
| "is_invoke _ = False"

fun is_toast :: "Effect \<Rightarrow> bool" where
  "is_toast (Toast title description variant) = True"
| "is_toast _ = False"

fun is_network :: "Effect \<Rightarrow> bool" where
  "is_network (DbSelect table columns ord) = True"
| "is_network (DbInsert table rows) = True"
| "is_network (DbUpdate table row key) = True"
| "is_network (FunctionsInvoke name request) = True"
| "is_network _ = False"

fun is_window_open :: "Effect \<Rightarrow> bool" where
  "is_window_open (WindowOpen url target) = True"
| "is_window_open _ = False"

text \<open>The rows that a list of effects writes to the backend.\<close>

fun rows_of :: "Effect \<Rightarrow> MeetingRow list" where
  "rows_of (DbInsert table rows) = rows"
| "rows_of (DbUpdate table row key) = [row]"
| "rows_of _ = []"

definition written_rows :: "Effect list \<Rightarrow> MeetingRow list" where
  "written_rows effects = concat (map rows_of effects)"

subsection \<open>Example data\<close>

text \<open>A form with the required fields, a lead with an address and a contact without.\<close>

definition example_meeting_state :: MeetingState where
  "example_meeting_state =
     \<lparr>loading = False, creatingTeamsMeeting = False,
      leads = [\<lparr>lead_id = ''lead-7'', lead_name = ''Lee'', lead_email = Some ''lee@acme.test''\<rparr>],
      contacts = [\<lparr>cref_id = ''contact-3'', cref_contact_name = ''Kim'', cref_email = None\<rparr>],
      formData =
        \<lparr>f_subject = ''Review'', f_description = [], f_start_time = ''2026-11-02T10:00'',
         f_end_time = ''2026-11-02T11:00'', f_join_url = ''https://old.example/j/0'',
         f_lead_id = ''lead-7'', f_contact_id = ''contact-3'', f_status = ''scheduled''\<rparr>\<rparr>"

text \<open>A stored meeting, the zone of UTC, and a dialog mounted closed.\<close>

definition example_meeting :: Meeting where
  "example_meeting =
     \<lparr>m_id = ''meeting-9'', m_subject = ''Kickoff'', m_description = None,
      m_start_time = ''2026-11-05T09:30:00+00:00'', m_end_time = ''2026-11-05T10:15:00+00:00'',
      m_join_url = None, m_lead_id = Some ''lead-7'', m_contact_id = None,
      m_status = ''scheduled''\<rparr>"

definition utc_zone :: Zone where
  "utc_zone = \<lparr>tza_at_utc = (\<lambda>t. 0), tza_at_local = (\<lambda>t. 0)\<rparr>"

text \<open>A zone one hour ahead of UTC, and one five and a half hours ahead.\<close>

definition utc_plus_one_zone :: Zone where
  "utc_plus_one_zone = \<lparr>tza_at_utc = (\<lambda>t. 3600000), tza_at_local = (\<lambda>t. 3600000)\<rparr>"

definition india_zone :: Zone where
  "india_zone = \<lparr>tza_at_utc = (\<lambda>t. 19800000), tza_at_local = (\<lambda>t. 19800000)\<rparr>"

definition closed_dialog :: Dialog where
  "closed_dialog =
     fst (mount utc_zone \<lparr>p_open = False, p_meeting = None, p_meeting_ident = 0\<rparr> 1793615000000)"

section \<open>Settings shell (Settings)\<close>

text \<open>A menu item without its icon; a missing \<^verbatim>\<open>adminOnly\<close> is \<^term>\<open>False\<close>.\<close>

record MenuItem =
  item_id :: string
  label :: string
  adminOnly :: bool

record MenuSection =
  title :: string
  items :: "MenuItem list"

definition menuSections :: "MenuSection list" where
  "menuSections =
     [\<lparr>title = ''Personal Settings'',
       items =
         [\<lparr>item_id = ''profile'', label = ''Profile Management'', adminOnly = False\<rparr>,
          \<lparr>item_id = ''password-security'', label = ''Password & Security'', adminOnly = False\<rparr>,
          \<lparr>item_id = ''notifications'', label = ''Notification Preferences'', adminOnly = False\<rparr>,
          \<lparr>item_id = ''display'', label = ''Display Preferences'', adminOnly = False\<rparr>]\<rparr>,
      \<lparr>title = ''User Management'',
       items =
         [\<lparr>item_id = ''user-directory'', label = ''User Directory'', adminOnly = True\<rparr>,
          \<lparr>item_id = ''role-management'', label = ''Role Management'', adminOnly = True\<rparr>,
          \<lparr>item_id = ''page-access'', label = ''Page Access Control'', adminOnly = True\<rparr>]\<rparr>,
      \<lparr>title = ''System Config'',
       items =
         [\<lparr>item_id = ''pipeline'', label = ''Pipeline/Stage Management'', adminOnly = True\<rparr>,
          \<lparr>item_id = ''email-templates'', label = ''Email Templates'', adminOnly = True\<rparr>,
          \<lparr>item_id = ''backup'', label = ''Data Import/Export'', adminOnly = True\<rparr>,
          \<lparr>item_id = ''integrations'', label = ''Integration Settings'', adminOnly = True\<rparr>]\<rparr>,
      \<lparr>title = ''Security'',
       items =
         [\<lparr>item_id = ''audit-logs'', label = ''Audit Logs Viewer'', adminOnly = True\<rparr>,
          \<lparr>item_id = ''session-management'', label = ''Session Management'', adminOnly = False\<rparr>]\<rparr>]"

datatype Panel =
    ProfileSettings | SecuritySettings | NotificationSettings | DisplaySettings
  | UserManagement | PageAccessSettings | PipelineSettings | EmailTemplatesSettings
  | BackupRestoreSettings | IntegrationSettings | AuditLogsSettings
  | SessionManagementSettings

definition initial_activeTab :: string where
  "initial_activeTab = ''profile''"

text \<open>\<open>userRole\<close> is what the hook \<^verbatim>\<open>useUserRole\<close> gives, \<^term>\<open>None\<close> when it is not a
  string.\<close>

definition isAdmin :: "string option \<Rightarrow> bool" where
  "isAdmin userRole \<longleftrightarrow> userRole = Some ''admin''"

definition renderContent :: "string \<Rightarrow> Panel" where
  "renderContent activeTab =
     (if activeTab = ''profile'' then ProfileSettings
      else if activeTab = ''password-security'' then SecuritySettings
      else if activeTab = ''notifications'' then NotificationSettings
      else if activeTab = ''display'' then DisplaySettings
      else if activeTab = ''user-directory'' \<or> activeTab = ''role-management'' then UserManagement
      else if activeTab = ''page-access'' then PageAccessSettings
      else if activeTab = ''pipeline'' then PipelineSettings
      else if activeTab = ''email-templates'' then EmailTemplatesSettings
      else if activeTab = ''backup'' then BackupRestoreSettings
      else if activeTab = ''integrations'' then IntegrationSettings
      else if activeTab = ''audit-logs'' then AuditLogsSettings
      else if activeTab = ''session-management'' then SessionManagementSettings
      else ProfileSettings)"

definition visibleItems :: "string option \<Rightarrow> MenuSection \<Rightarrow> MenuItem list" where
  "visibleItems userRole section =
     filter (\<lambda>item. \<not> adminOnly item \<or> isAdmin userRole) (items section)"

text \<open>The sidebar: the sections that have a visible item, each with its visible items
  (a button per item, whose click sets the active key to the item's id).\<close>

definition rendered_menu :: "string option \<Rightarrow> (string \<times> MenuItem list) list" where
  "rendered_menu userRole =
     map (\<lambda>section. (title section, visibleItems userRole section))
       (filter (\<lambda>section. visibleItems userRole section \<noteq> []) menuSections)"

definition rendered_items :: "string option \<Rightarrow> MenuItem list" where
  "rendered_items userRole = concat (map snd (rendered_menu userRole))"

fun getActiveLabel_in :: "MenuSection list \<Rightarrow> string \<Rightarrow> string" where
  "getActiveLabel_in [] activeTab = ''Settings''"
| "getActiveLabel_in (section # rest) activeTab =
     (case find (\<lambda>item. item_id item = activeTab) (items section) of
        Some item \<Rightarrow> label item
      | None \<Rightarrow> getActiveLabel_in rest activeTab)"

definition getActiveLabel :: "string \<Rightarrow> string" where
  "getActiveLabel activeTab = getActiveLabel_in menuSections activeTab"


section \<open>Properties of the email composer\<close>

subsection \<open>Substituting into a template\<close>

lemma GetSubstitution_plain:
  "CHR ''$'' \<notin> set v \<Longrightarrow> GetSubstitution m bef aft v = v"
  by (induction m bef aft v rule: GetSubstitution.induct) auto

lemma starts_with_append: "starts_with p (p @ r)"
  by (induction p) auto

lemma replace_scan_copy:
  "\<not> starts_with p (x # xs) \<Longrightarrow>
   replace_scan p v seen (x # xs) = x # replace_scan p v (seen @ [x]) xs"
  by simp

lemma replace_scan_match:
  assumes "p \<noteq> []"
  shows "replace_scan p v seen (p @ r)
           = GetSubstitution p seen r v @ replace_scan p v (seen @ p) r"
proof -
  from assms obtain x p' where p: "p = x # p'"
    by (cases p) auto
  have "starts_with p (x # p' @ r)"
    using starts_with_append [of p r] by (simp add: p)
  then show ?thesis
    by (simp add: p)
qed

lemma replace_scan_skip:
  assumes "starts_with ''{'' p" and "CHR ''{'' \<notin> set u"
  shows "replace_scan p v seen (u @ r) = u @ replace_scan p v (seen @ u) r"
  using assms(2)
proof (induction u arbitrary: seen)
  case Nil
  show ?case by simp
next
  case (Cons x u)
  from Cons.prems have "x \<noteq> CHR ''{''" and rest: "CHR ''{'' \<notin> set u"
    by auto
  with assms(1) have "\<not> starts_with p (x # u @ r)"
    by (cases p) auto
  then have "replace_scan p v seen ((x # u) @ r) = x # replace_scan p v (seen @ [x]) (u @ r)"
    by simp
  also have "\<dots> = x # u @ replace_scan p v ((seen @ [x]) @ u) r"
    using Cons.IH [OF rest, of "seen @ [x]"] by simp
  finally show ?case by simp
qed


lemma name_before_closing:
  assumes "starts_with (name @ ''}}'') (n @ ''}}'' @ r)"
    and "CHR ''}'' \<notin> set name" and "CHR ''}'' \<notin> set n"
  shows "n = name"
  using assms
proof (induction name arbitrary: n)
  case Nil
  then show ?case by (cases n) auto
next
  case (Cons x name)
  then show ?case by (cases n) auto
qed

lemma token_mismatch:
  assumes "n \<noteq> name" and "CHR ''}'' \<notin> set name" and "CHR ''}'' \<notin> set n"
  shows "\<not> starts_with (''{{'' @ name @ ''}}'') (''{{'' @ n @ ''}}'' @ r)"
  using assms name_before_closing [of name n r] by auto

lemma second_brace:
  assumes "CHR ''{'' \<notin> set n"
  shows "\<not> starts_with (''{{'' @ name @ ''}}'') (CHR ''{'' # n @ ''}}'' @ r)"
  using assms by (cases n) auto

lemma render_Cons: "render (p # ps) = render_piece p @ render ps"
  by (simp add: render_def)

lemma render_Nil: "render [] = []"
  by (simp add: render_def)

lemma subst_Cons: "subst name v (p # ps) = subst_piece name v p @ subst name v ps"
  by (simp add: subst_def)

lemma subst_Nil: "subst name v [] = []"
  by (simp add: subst_def)

lemma render_append: "render (ps @ qs) = render ps @ render qs"
  by (simp add: render_def)

lemma render_map_Chr: "render (map Chr v) = v"
  by (induction v) (simp_all add: render_def)

text \<open>One pass over a well-formed template replaces the tokens of its name.\<close>

lemma replace_scan_pieces:
  assumes "CHR ''{'' \<notin> set name" and "CHR ''}'' \<notin> set name"
  shows "well_formed ps \<Longrightarrow> (Token name \<in> set ps \<Longrightarrow> CHR ''$'' \<notin> set v) \<Longrightarrow>
         replace_scan (''{{'' @ name @ ''}}'') v seen (render ps) = render (subst name v ps)"
proof (induction ps arbitrary: seen rule: well_formed.induct)
  case 1
  show ?case by (simp add: render_def subst_def)
next
  case (2 n ps)
  let ?p = "''{{'' @ name @ ''}}''"
  from "2.prems" have n: "CHR ''{'' \<notin> set n" "CHR ''}'' \<notin> set n" and wf: "well_formed ps"
    and used: "Token name \<in> set ps \<Longrightarrow> CHR ''$'' \<notin> set v"
    by simp_all
  note IH = "2.IH" [OF wf used]
  show ?case
  proof (cases "n = name")
    case True
    have "replace_scan ?p v seen (?p @ render ps)
        = GetSubstitution ?p seen (render ps) v @ replace_scan ?p v (seen @ ?p) (render ps)"
      by (rule replace_scan_match) simp
    also have "\<dots> = v @ render (subst name v ps)"
      using True "2.prems"(2) IH by (simp add: GetSubstitution_plain)
    finally show ?thesis
      using True by (simp add: render_Cons subst_Cons render_append render_map_Chr)
  next
    case False
    let ?tail = "n @ ''}}''"
    have open1: "\<not> starts_with ?p (''{{'' @ n @ ''}}'' @ render ps)"
      using False assms(2) n(2) by (rule token_mismatch)
    have open2: "\<not> starts_with ?p (CHR ''{'' # n @ ''}}'' @ render ps)"
      using n(1) by (rule second_brace)
    have tail: "CHR ''{'' \<notin> set ?tail"
      using n(1) by simp
    have "replace_scan ?p v seen (''{{'' @ n @ ''}}'' @ render ps)
        = CHR ''{'' # replace_scan ?p v (seen @ ''{'') (CHR ''{'' # n @ ''}}'' @ render ps)"
      using open1 by simp
    also have "\<dots> = CHR ''{'' # CHR ''{'' # replace_scan ?p v (seen @ ''{{'') (?tail @ render ps)"
      using open2 by simp
    also have "\<dots> = CHR ''{'' # CHR ''{'' # ?tail
                       @ replace_scan ?p v ((seen @ ''{{'') @ ?tail) (render ps)"
      using replace_scan_skip [of ?p ?tail v "seen @ ''{{''" "render ps"] tail by simp
    also have "\<dots> = ''{{'' @ n @ ''}}'' @ render (subst name v ps)"
      using IH by simp
    finally show ?thesis
      using False by (simp add: render_Cons subst_Cons)
  qed
next
  case (3 x)
  show ?case
    by (simp add: render_def subst_def)
next
  case (4 x n ps)
  let ?p = "''{{'' @ name @ ''}}''"
  from "4.prems" have x: "x \<noteq> CHR ''{''" and wf: "well_formed (Token n # ps)"
    and used: "Token name \<in> set (Token n # ps) \<Longrightarrow> CHR ''$'' \<notin> set v"
    by simp_all
  from x have "\<not> starts_with ?p (x # render (Token n # ps))"
    by simp
  then have "replace_scan ?p v seen (x # render (Token n # ps))
      = x # replace_scan ?p v (seen @ [x]) (render (Token n # ps))"
    by (rule replace_scan_copy)
  also have "\<dots> = x # render (subst name v (Token n # ps))"
    using "4.IH" [OF wf used] by simp
  finally show ?case
    by (simp add: render_Cons subst_Cons)
next
  case (5 x y ps)
  let ?p = "''{{'' @ name @ ''}}''"
  from "5.prems" have xy: "\<not> (x = CHR ''{'' \<and> y = CHR ''{'')"
    and wf: "well_formed (Chr y # ps)"
    and used: "Token name \<in> set (Chr y # ps) \<Longrightarrow> CHR ''$'' \<notin> set v"
    by simp_all
  from xy have "\<not> starts_with ?p (x # render (Chr y # ps))"
    by (auto simp: render_Cons)
  then have "replace_scan ?p v seen (x # render (Chr y # ps))
      = x # replace_scan ?p v (seen @ [x]) (render (Chr y # ps))"
    by (rule replace_scan_copy)
  also have "\<dots> = x # render (subst name v (Chr y # ps))"
    using "5.IH" [OF wf used] by simp
  finally show ?case
    by (simp add: render_Cons subst_Cons)
qed


lemma well_formed_Chr:
  "x \<noteq> CHR ''{'' \<Longrightarrow> well_formed (Chr x # ps) = well_formed ps"
proof (cases ps)
  case Nil
  then show ?thesis by simp
next
  case (Cons p qs)
  assume "x \<noteq> CHR ''{''"
  with Cons show ?thesis by (cases p) simp_all
qed

lemma well_formed_map_Chr:
  "CHR ''{'' \<notin> set v \<Longrightarrow> well_formed (map Chr v @ ps) = well_formed ps"
  by (induction v) (auto simp: well_formed_Chr)

lemma well_formed_subst:
  assumes "CHR ''{'' \<notin> set v"
  shows "well_formed ps \<Longrightarrow> well_formed (subst name v ps)"
proof (induction ps rule: well_formed.induct)
  case 1
  show ?case by (simp add: subst_def)
next
  case (2 n ps)
  then show ?case
    using assms by (simp add: subst_Cons well_formed_map_Chr)
next
  case (3 x)
  show ?case by (simp add: subst_def)
next
  case (4 x n ps)
  then show ?case
    by (simp add: subst_Cons well_formed_Chr del: well_formed.simps(2))
next
  case (5 x y ps)
  then show ?case
    by (simp add: subst_Cons)
qed

lemma subst_map_Chr: "subst name v (map Chr w @ ps) = map Chr w @ subst name v ps"
  by (induction w) (simp_all add: subst_def)

lemma render_four_passes:
  "render (subst ''email'' v4 (subst ''position'' v3 (subst ''company_name'' v2
      (subst ''contact_name'' v1 ps))))
   = concat (map (\<lambda>p. case p of
        Chr x \<Rightarrow> [x]
      | Token n \<Rightarrow>
          if n = ''contact_name'' then v1 else if n = ''company_name'' then v2
          else if n = ''position'' then v3 else if n = ''email'' then v4
          else ''{{'' @ n @ ''}}'') ps)"
proof (induction ps)
  case Nil
  show ?case by (simp add: subst_def render_def)
next
  case (Cons p ps)
  show ?case
  proof (cases p)
    case (Chr x)
    with Cons show ?thesis
      by (simp add: subst_Cons render_Cons)
  next
    case (Token n)
    with Cons show ?thesis
      by (simp add: subst_Cons render_Cons subst_map_Chr render_append render_map_Chr
          render_Nil)
  qed
qed

lemma expand_eq:
  "expand c ps
   = concat (map (\<lambda>p. case p of
        Chr x \<Rightarrow> [x]
      | Token n \<Rightarrow>
          if n = ''contact_name'' then contact_name c
          else if n = ''company_name'' then or_empty (company_name c)
          else if n = ''position'' then or_empty (position c)
          else if n = ''email'' then or_empty (email c)
          else ''{{'' @ n @ ''}}'') ps)"
  unfolding expand_def
  by (rule arg_cong [where f = concat], rule map_cong) (auto split: Piece.split)

lemma replaceVariables_pieces:
  assumes "well_formed ps" and "plain_contact c"
  shows "replaceVariables (render ps) (Some c) = expand c ps"
proof -
  let ?v1 = "contact_name c" and ?v2 = "or_empty (company_name c)"
  let ?v3 = "or_empty (position c)" and ?v4 = "or_empty (email c)"
  let ?p1 = "subst ''contact_name'' ?v1 ps"
  let ?p2 = "subst ''company_name'' ?v2 ?p1"
  let ?p3 = "subst ''position'' ?v3 ?p2"
  from assms(2) have v: "CHR ''$'' \<notin> set ?v1" "CHR ''{'' \<notin> set ?v1"
      "CHR ''$'' \<notin> set ?v2" "CHR ''{'' \<notin> set ?v2"
      "CHR ''$'' \<notin> set ?v3" "CHR ''{'' \<notin> set ?v3"
      "CHR ''$'' \<notin> set ?v4" "CHR ''{'' \<notin> set ?v4"
    by (simp_all add: plain_contact_def plain_def)
  have wf1: "well_formed ?p1"
    using v(2) assms(1) by (rule well_formed_subst)
  have wf2: "well_formed ?p2"
    using v(4) wf1 by (rule well_formed_subst)
  have wf3: "well_formed ?p3"
    using v(6) wf2 by (rule well_formed_subst)
  have pass1: "replace_all ph_contact_name ?v1 (render ps) = render ?p1"
    using replace_scan_pieces [of "''contact_name''" ps ?v1 "[]"] v(1) assms(1)
    by (simp add: replace_all_def ph_contact_name_def)
  have pass2: "replace_all ph_company_name ?v2 (render ?p1) = render ?p2"
    using replace_scan_pieces [of "''company_name''" ?p1 ?v2 "[]"] v(3) wf1
    by (simp add: replace_all_def ph_company_name_def)
  have pass3: "replace_all ph_position ?v3 (render ?p2) = render ?p3"
    using replace_scan_pieces [of "''position''" ?p2 ?v3 "[]"] v(5) wf2
    by (simp add: replace_all_def ph_position_def)
  have pass4: "replace_all ph_email ?v4 (render ?p3) = render (subst ''email'' ?v4 ?p3)"
    using replace_scan_pieces [of "''email''" ?p3 ?v4 "[]"] v(7) wf3
    by (simp add: replace_all_def ph_email_def)
  have "replaceVariables (render ps) (Some c) = render (subst ''email'' ?v4 ?p3)"
    by (simp only: replaceVariables_def option.case pass1 pass2 pass3 pass4)
  then show ?thesis
    by (simp only: render_four_passes expand_eq)
qed


lemma subst_absent: "Token name \<notin> set ps \<Longrightarrow> subst name v ps = ps"
proof (induction ps)
  case Nil
  show ?case by (simp add: subst_def)
next
  case (Cons p ps)
  then show ?case by (cases p) (auto simp: subst_Cons)
qed


lemma splice_Cons: "splice name vs (p # ps) = (if p = Token name then vs else [p]) @ splice name vs ps"
  by (simp add: splice_def)

lemma splice_Nil: "splice name vs [] = []"
  by (simp add: splice_def)

lemma render_splice:
  "render vs = v \<Longrightarrow> render (splice name vs ps) = render (subst name v ps)"
proof (induction ps)
  case Nil
  show ?case by (simp add: splice_def subst_def)
next
  case (Cons p ps)
  then show ?case
    by (cases p) (auto simp: splice_Cons subst_Cons render_append render_map_Chr render_Cons)
qed

lemma splice_absent: "Token name \<notin> set vs \<Longrightarrow> Token name \<notin> set (splice name vs ps)"
  by (induction ps) (auto simp: splice_Cons splice_Nil)

lemma well_formed_value:
  assumes "CHR ''{'' \<notin> set pre" and "CHR ''{'' \<notin> set post"
    and "CHR ''{'' \<notin> set n" and "CHR ''}'' \<notin> set n"
  shows "well_formed (map Chr pre @ Token n # map Chr post @ ps) = well_formed ps"
  using assms by (simp add: well_formed_map_Chr)

lemma well_formed_splice:
  assumes "CHR ''{'' \<notin> set pre" and "CHR ''{'' \<notin> set post"
    and "CHR ''{'' \<notin> set n" and "CHR ''}'' \<notin> set n"
  shows "well_formed ps \<Longrightarrow>
         well_formed (splice name (map Chr pre @ Token n # map Chr post) ps)"
proof (induction ps rule: well_formed.induct)
  case 1
  show ?case by (simp add: splice_def)
next
  case (2 m ps)
  then show ?case
    using well_formed_value [OF assms] by (simp add: splice_Cons)
next
  case (3 x)
  show ?case by (simp add: splice_def)
next
  case (4 x m ps)
  then show ?case
    by (simp add: splice_Cons [of name _ "Chr x"] well_formed_Chr del: well_formed.simps(2))
next
  case (5 x y ps)
  then show ?case
    by (simp add: splice_Cons)
qed

lemma expand_Cons: "expand c (p # ps) = expand_piece c p @ expand c ps"
  by (simp add: expand_def)

lemma expand_append: "expand c (ps @ qs) = expand c ps @ expand c qs"
  by (simp add: expand_def)

lemma expand_map_Chr: "expand c (map Chr v) = v"
  by (induction v) (simp_all add: expand_def)

lemma expand_splice:
  assumes "company_name c' = company_name c" and "position c' = position c"
    and "email c' = email c" and "contact_name c' = expand c vs"
  shows "expand c (splice ''contact_name'' vs ps) = expand c' ps"
proof (induction ps)
  case Nil
  show ?case by (simp add: splice_def expand_def)
next
  case (Cons p ps)
  show ?case
  proof (cases "p = Token ''contact_name''")
    case True
    with Cons assms(4) show ?thesis
      by (simp add: splice_Cons expand_append expand_Cons)
  next
    case False
    then have "expand_piece c p = expand_piece c' p"
      using assms(1-3) by (cases p) auto
    with Cons False show ?thesis
      by (simp add: splice_Cons expand_Cons)
  qed
qed

text \<open>
  Claim C1, as the code has it.  Take a template of the list that is the first with its
  id, the id not being \<^verbatim>\<open>none\<close>, whose subject and body are well-formed texts, and a
  contact whose attribute values contain neither \<^verbatim>\<open>$\<close> nor \<^verbatim>\<open>{\<close>.  Selecting the template
  sets the subject and the body to the template's subject and body in which every
  token \<^verbatim>\<open>{{contact_name}}\<close>, \<^verbatim>\<open>{{company_name}}\<close>, \<^verbatim>\<open>{{position}}\<close>, \<^verbatim>\<open>{{email}}\<close> is
  replaced by the contact's attribute, the empty string for an absent one, and every
  other token and character is kept.  The result is a function of template and contact.
\<close>

theorem handleTemplateSelect_substitutes:
  assumes "find (\<lambda>t. tpl_id t = templateId) (templates st) = Some t"
    and "templateId \<noteq> ''none''"
    and "tpl_subject t = render ps" and "well_formed ps"
    and "tpl_body t = render qs" and "well_formed qs"
    and "plain_contact c"
  shows "handleTemplateSelect (Some c) templateId st
           = st\<lparr>selectedTemplate := templateId, subject := expand c ps, body := expand c qs\<rparr>"
proof -
  have "replaceVariables (tpl_subject t) (Some c) = expand c ps"
    using assms(3,4,7) by (simp add: replaceVariables_pieces)
  moreover have "replaceVariables (tpl_body t) (Some c) = expand c qs"
    using assms(5,6,7) by (simp add: replaceVariables_pieces)
  ultimately show ?thesis
    using assms(1,2) by (simp add: handleTemplateSelect_def)
qed


theorem handleTemplateSelect_substitutes_witness:
  "find (\<lambda>t. tpl_id t = ''t-2'') (templates example_email_state) = Some (example_templates ! 1)
   \<and> ''t-2'' \<noteq> ''none''
   \<and> tpl_subject (example_templates ! 1) = render introduction_subject_pieces
   \<and> well_formed introduction_subject_pieces
   \<and> tpl_body (example_templates ! 1) = render introduction_body_pieces
   \<and> well_formed introduction_body_pieces
   \<and> plain_contact example_contact
   \<and> handleTemplateSelect (Some example_contact) ''t-2'' example_email_state
       = \<lparr>templates = example_templates, selectedTemplate = ''t-2'',
          subject = ''Hello Jane from '',
          body = ''{{greeting}} jane@acme.test, jane@acme.test''\<rparr>"
  using handleTemplateSelect_substitutes
    [of "''t-2''" example_email_state "example_templates ! 1" introduction_subject_pieces
      introduction_body_pieces example_contact]
  by (simp add: example_email_state_def example_templates_def introduction_subject_pieces_def
      introduction_body_pieces_def example_contact_def render_def expand_def plain_contact_def
      plain_def or_empty_def)

text \<open>
  The claim as it was worded does not hold for a contact whose name is itself a token:
  the text asked for is \<^verbatim>\<open>Hi {{email}}\<close>, with the name in the place of its token, and
  the subject becomes the text in which the address stands there.  Nor does it hold for
  a text that is not well formed, whatever the values: in \<^verbatim>\<open>{{{{contact_name}}mail}}\<close>
  the name \<^verbatim>\<open>e\<close> completes a token, which is then replaced too.  And in a value the
  two characters \<^verbatim>\<open>$$\<close> are read as one.
\<close>

theorem handleTemplateSelect_counterexample:
  "find (\<lambda>t. tpl_id t = ''t-1'') (templates example_email_state) = Some (example_templates ! 0)
   \<and> tpl_subject (example_templates ! 0) = render greeting_pieces
   \<and> well_formed greeting_pieces
   \<and> expand token_named_contact greeting_pieces = ''Hi {{email}}''
   \<and> subject (handleTemplateSelect (Some token_named_contact) ''t-1'' example_email_state)
       = ''Hi jane@acme.test''
   \<and> plain_contact short_named_contact
   \<and> render nested_pieces = ''{{{{contact_name}}mail}}''
   \<and> expand short_named_contact nested_pieces = ''{{email}}''
   \<and> replaceVariables ''{{{{contact_name}}mail}}'' (Some short_named_contact)
       = ''jane@acme.test''
   \<and> expand dollar_named_contact greeting_pieces = ''Hi Ca$$h''
   \<and> subject (handleTemplateSelect (Some dollar_named_contact) ''t-1'' example_email_state)
       = ''Hi Ca$h''"
  by (simp add: example_email_state_def example_templates_def greeting_pieces_def render_def
      expand_def handleTemplateSelect_def replaceVariables_def token_named_contact_def
      replace_all_def ph_contact_name_def ph_company_name_def ph_position_def ph_email_def
      or_empty_def nested_pieces_def short_named_contact_def plain_contact_def plain_def
      dollar_named_contact_def)

text \<open>
  Claim C10.  \<^verbatim>\<open>replaceVariables\<close> is four passes over the text, for
  \<^verbatim>\<open>{{contact_name}}\<close>, \<^verbatim>\<open>{{company_name}}\<close>, \<^verbatim>\<open>{{position}}\<close> and \<^verbatim>\<open>{{email}}\<close> in this
  order, each over the result of the one before.  So a token \<^verbatim>\<open>{{email}}\<close> that the first
  pass brings in with the contact's name is replaced by the last pass: for a contact
  whose name is \<^verbatim>\<open>pre{{email}}post\<close>, a well-formed text becomes what it would become for
  a contact whose name is \<^verbatim>\<open>pre\<close>, the address, \<^verbatim>\<open>post\<close> (with \<^verbatim>\<open>pre\<close>, \<^verbatim>\<open>post\<close> and the
  other values containing neither \<^verbatim>\<open>$\<close> nor \<^verbatim>\<open>{\<close>).
\<close>

theorem replaceVariables_sequential:
  "replaceVariables text (Some c)
     = replace_all ph_email (or_empty (email c))
         (replace_all ph_position (or_empty (position c))
           (replace_all ph_company_name (or_empty (company_name c))
             (replace_all ph_contact_name (contact_name c) text)))
   \<and> (well_formed ps \<and> contact_name c = pre @ ''{{email}}'' @ post \<and> plain pre \<and> plain post
       \<and> plain (or_empty (company_name c)) \<and> plain (or_empty (position c))
       \<and> plain (or_empty (email c))
      \<longrightarrow> replaceVariables (render ps) (Some c)
            = expand (c\<lparr>contact_name := pre @ or_empty (email c) @ post\<rparr>) ps)"
proof (intro conjI impI)
  show "replaceVariables text (Some c)
     = replace_all ph_email (or_empty (email c))
         (replace_all ph_position (or_empty (position c))
           (replace_all ph_company_name (or_empty (company_name c))
             (replace_all ph_contact_name (contact_name c) text)))"
    by (simp add: replaceVariables_def)
next
  assume h: "well_formed ps \<and> contact_name c = pre @ ''{{email}}'' @ post \<and> plain pre
       \<and> plain post \<and> plain (or_empty (company_name c)) \<and> plain (or_empty (position c))
       \<and> plain (or_empty (email c))"
  let ?v1 = "contact_name c"
  let ?vs = "map Chr pre @ Token ''email'' # map Chr post"
  let ?ps1 = "splice ''contact_name'' ?vs ps"
  let ?c0 = "c\<lparr>contact_name := []\<rparr>"
  let ?rest = "\<lambda>t. replace_all ph_email (or_empty (email c))
         (replace_all ph_position (or_empty (position c))
           (replace_all ph_company_name (or_empty (company_name c)) t))"
  from h have wf: "well_formed ps" and v1: "CHR ''$'' \<notin> set ?v1"
    and braces: "CHR ''{'' \<notin> set pre" "CHR ''{'' \<notin> set post"
    by (simp_all add: plain_def)
  have rendered: "render ?vs = ?v1"
    using h by (simp add: render_append render_map_Chr render_Cons)
  have "replace_all ph_contact_name ?v1 (render ps) = render (subst ''contact_name'' ?v1 ps)"
    using replace_scan_pieces [of "''contact_name''" ps ?v1 "[]"] v1 wf
    by (simp add: replace_all_def ph_contact_name_def)
  also have "\<dots> = render ?ps1"
    using rendered by (simp add: render_splice)
  finally have pass1: "replace_all ph_contact_name ?v1 (render ps) = render ?ps1" .
  have wf1: "well_formed ?ps1"
    using braces wf by (intro well_formed_splice) simp_all
  have "Token ''contact_name'' \<notin> set ?ps1"
    by (rule splice_absent) auto
  then have same: "replace_all ph_contact_name [] (render ?ps1) = render ?ps1"
    using replace_scan_pieces [of "''contact_name''" ?ps1 "[]" "[]"] wf1
    by (simp add: replace_all_def ph_contact_name_def subst_absent)
  have "plain_contact ?c0"
    using h by (simp add: plain_contact_def plain_def)
  with wf1 have "replaceVariables (render ?ps1) (Some ?c0) = expand ?c0 ?ps1"
    by (rule replaceVariables_pieces)
  then have later: "?rest (render ?ps1) = expand ?c0 ?ps1"
    by (simp add: replaceVariables_def same)
  have "expand ?c0 ?ps1 = expand (c\<lparr>contact_name := pre @ or_empty (email c) @ post\<rparr>) ps"
    by (rule expand_splice) (simp_all add: expand_append expand_map_Chr expand_Cons)
  with later have "?rest (render ?ps1)
      = expand (c\<lparr>contact_name := pre @ or_empty (email c) @ post\<rparr>) ps"
    by simp
  then show "replaceVariables (render ps) (Some c)
            = expand (c\<lparr>contact_name := pre @ or_empty (email c) @ post\<rparr>) ps"
    by (simp add: replaceVariables_def pass1)
qed

theorem replaceVariables_sequential_witness:
  "well_formed introduction_subject_pieces
   \<and> contact_name token_named_contact = [] @ ''{{email}}'' @ []
   \<and> plain []
   \<and> plain (or_empty (email token_named_contact))
   \<and> replaceVariables ''Hello {{contact_name}} from {{company_name}}''
        (Some token_named_contact)
       = ''Hello jane@acme.test from ''"
  using replaceVariables_sequential
    [of "''Hello {{contact_name}} from {{company_name}}''" token_named_contact
      introduction_subject_pieces "[]" "[]", THEN conjunct2]
  by (simp add: token_named_contact_def plain_def or_empty_def introduction_subject_pieces_def
      render_def expand_def)

subsection \<open>Sending\<close>

lemma url_safe_hex:
  assumes "d < 16"
  shows "url_safe (hex_digit d)"
proof -
  from assms have "d = 0 \<or> d = 1 \<or> d = 2 \<or> d = 3 \<or> d = 4 \<or> d = 5 \<or> d = 6 \<or> d = 7
      \<or> d = 8 \<or> d = 9 \<or> d = 10 \<or> d = 11 \<or> d = 12 \<or> d = 13 \<or> d = 14 \<or> d = 15"
    by arith
  then show ?thesis
    by (elim disjE) (simp_all add: hex_digit_def url_safe_def urlencoded_keep_def)
qed

lemma urlencode_byte_safe:
  assumes "b < 256" and "c \<in> set (urlencode_byte b)"
  shows "url_safe c"
proof -
  have "b div 16 < 16" and "b mod 16 < 16"
    using assms(1) by simp_all
  then have "url_safe (hex_digit (b div 16))" and "url_safe (hex_digit (b mod 16))"
    by (simp_all add: url_safe_hex)
  moreover have "urlencoded_keep b \<Longrightarrow> url_safe (char_of b)"
    using assms(1) by (simp add: url_safe_def)
  ultimately show ?thesis
    using assms(2) by (auto simp: urlencode_byte_def url_safe_def split: if_splits)
qed

lemma utf8_encode_bytes:
  assumes "b \<in> set (utf8_encode c)"
  shows "b < 256"
proof -
  have "(of_char c :: nat) < 256" by simp
  then have "(of_char c :: nat) div 64 < 4" by arith
  then show ?thesis
    using assms \<open>(of_char c :: nat) < 256\<close>
    by (auto simp: utf8_encode_def Let_def split: if_splits)
qed

lemma urlencode_safe: "c \<in> set (urlencode s) \<Longrightarrow> url_safe c"
  by (auto simp: urlencode_def dest: utf8_encode_bytes urlencode_byte_safe)

lemma url_safe_not_delimiter:
  "url_safe c \<Longrightarrow> c \<notin> set ''&=?# ''"
  by (auto simp: url_safe_def urlencoded_keep_def)

lemma params_toString_both:
  "params_toString (mailtoParams st) =
     (if subject st \<noteq> [] then ''subject='' @ urlencode (subject st) else [])
     @ (if subject st \<noteq> [] \<and> body st \<noteq> [] then ''&'' else [])
     @ (if body st \<noteq> [] then ''body='' @ urlencode (body st) else [])"
  by (simp add: params_toString_def mailtoParams_def Let_def urlencode_def urlencode_byte_def
      utf8_encode_def urlencoded_keep_def char_of_eq_iff)

text \<open>
  Claim C7.  For a contact without an email address (no contact, no address or an empty
  one) \<^verbatim>\<open>handleSendEmail\<close> only shows the notification \<^verbatim>\<open>No email address\<close>: no window
  is opened and no call is made.  For a contact with an address it opens, in a new
  browsing context, the link \<^verbatim>\<open>mailto:<address>?subject=<encoded>&body=<encoded>\<close> in
  which a parameter with an empty value is left out, then notifies success and closes
  the dialog.  An encoded value has none of the characters \<^verbatim>\<open>& = ? #\<close> and no space, so
  the parameters of the link are the ones written.
\<close>

theorem handleSendEmail_mailto:
  "((case contact of None \<Rightarrow> True | Some c \<Rightarrow> email c = None \<or> email c = Some [])
      \<longrightarrow> handleSendEmail contact st
            = [Toast ''No email address'' ''This contact doesn't have an email address''
                 Destructive])
   \<and> (contact = Some c \<and> email c = Some address \<and> address \<noteq> []
      \<longrightarrow> handleSendEmail contact st
            = [WindowOpen
                 (''mailto:'' @ address @ ''?''
                  @ (if subject st \<noteq> [] then ''subject='' @ urlencode (subject st) else [])
                  @ (if subject st \<noteq> [] \<and> body st \<noteq> [] then ''&'' else [])
                  @ (if body st \<noteq> [] then ''body='' @ urlencode (body st) else []))
                 ''_blank'',
               Toast ''Email Client Opened''
                 ''Your default email client should open with the pre-filled template'' Default,
               OnOpenChange False])
   \<and> (\<forall>ch \<in> set (urlencode text). ch \<notin> set ''&=?# '')"
proof (intro conjI impI)
  assume "case contact of None \<Rightarrow> True | Some c \<Rightarrow> email c = None \<or> email c = Some []"
  then have "contact_email contact = None"
    by (auto simp: contact_email_def split: option.splits)
  then show "handleSendEmail contact st
      = [Toast ''No email address'' ''This contact doesn't have an email address'' Destructive]"
    by (simp add: handleSendEmail_def)
next
  assume "contact = Some c \<and> email c = Some address \<and> address \<noteq> []"
  then have "contact_email contact = Some address"
    by (simp add: contact_email_def)
  then show "handleSendEmail contact st
            = [WindowOpen
                 (''mailto:'' @ address @ ''?''
                  @ (if subject st \<noteq> [] then ''subject='' @ urlencode (subject st) else [])
                  @ (if subject st \<noteq> [] \<and> body st \<noteq> [] then ''&'' else [])
                  @ (if body st \<noteq> [] then ''body='' @ urlencode (body st) else []))
                 ''_blank'',
               Toast ''Email Client Opened''
                 ''Your default email client should open with the pre-filled template'' Default,
               OnOpenChange False]"
    by (simp add: handleSendEmail_def mailtoLink_def params_toString_both)
next
  show "\<forall>ch \<in> set (urlencode text). ch \<notin> set ''&=?# ''"
    using urlencode_safe url_safe_not_delimiter by blast
qed

lemma urlencode_example: "urlencode ''Q&A at 5'' = ''Q%26A+at+5''"
  by code_simp

theorem handleSendEmail_mailto_witness:
  "handleSendEmail
       (Some \<lparr>contact_name = ''Jane'', company_name = Some ''Acme'', position = None,
              email = None\<rparr>)
       \<lparr>templates = [], selectedTemplate = [], subject = ''Q&A at 5'', body = []\<rparr>
     = [Toast ''No email address'' ''This contact doesn't have an email address'' Destructive]
   \<and> handleSendEmail
       (Some \<lparr>contact_name = ''Jane'', company_name = Some ''Acme'', position = None,
              email = Some ''jane@acme.test''\<rparr>)
       \<lparr>templates = [], selectedTemplate = [], subject = ''Q&A at 5'', body = []\<rparr>
     = [WindowOpen ''mailto:jane@acme.test?subject=Q%26A+at+5'' ''_blank'',
        Toast ''Email Client Opened''
          ''Your default email client should open with the pre-filled template'' Default,
        OnOpenChange False]
   \<and> CHR ''&'' \<notin> set (urlencode ''Q&A at 5'')"
  using handleSendEmail_mailto
    [of "Some \<lparr>contact_name = ''Jane'', company_name = Some ''Acme'', position = None,
                email = None\<rparr>"
      "\<lparr>templates = [], selectedTemplate = [], subject = ''Q&A at 5'', body = []\<rparr>"
      "\<lparr>contact_name = ''Jane'', company_name = Some ''Acme'', position = None,
         email = None\<rparr>" "[]" "''Q&A at 5''"]
    handleSendEmail_mailto
    [of "Some \<lparr>contact_name = ''Jane'', company_name = Some ''Acme'', position = None,
                email = Some ''jane@acme.test''\<rparr>"
      "\<lparr>templates = [], selectedTemplate = [], subject = ''Q&A at 5'', body = []\<rparr>"
      "\<lparr>contact_name = ''Jane'', company_name = Some ''Acme'', position = None,
         email = Some ''jane@acme.test''\<rparr>" "''jane@acme.test''" "''Q&A at 5''"]
  by (simp add: urlencode_example)

section \<open>Properties of the meeting composer\<close>

subsection \<open>Opening the dialog\<close>

lemma next_hour_local:
  fixes local :: int
  shows "Day local * msPerDay + (HourFromTime local + 1) * msPerHour
           = (local div msPerHour + 1) * msPerHour"
proof -
  define q r where "q = local div 3600000 div 24" and "r = local div 3600000 mod 24"
  have h: "local div 3600000 = q * 24 + r"
    by (simp add: q_def r_def)
  have day: "local div 86400000 = q"
    using zdiv_zmult2_eq [of 24 local 3600000] by (simp add: q_def)
  have "q * 86400000 + (r + 1) * 3600000 = (q * 24 + r + 1) * 3600000"
    by (simp add: algebra_simps)
  then have "q * 86400000 + (r + 1) * 3600000 = (local div 3600000 + 1) * 3600000"
    by (simp only: h)
  then have "local div 86400000 * 86400000 + (local div 3600000 mod 24 + 1) * 3600000
      = (local div 3600000 + 1) * 3600000"
    by (simp only: day r_def)
  then show ?thesis
    by (simp only: Day_def HourFromTime_def msPerDay_def msPerHour_def)
qed

lemma next_hour_bounds:
  fixes clock offset :: int
  defines "start \<equiv> ((clock + offset) div 3600000 + 1) * 3600000 - offset"
  shows "clock < start" and "start \<le> clock + 3600000" and "(start + offset) mod 3600000 = 0"
proof -
  let ?l = "clock + offset"
  have "?l mod 3600000 < 3600000" and "0 \<le> ?l mod 3600000"
    by simp_all
  moreover have "?l = ?l div 3600000 * 3600000 + ?l mod 3600000"
    by simp
  ultimately have "?l < (?l div 3600000 + 1) * 3600000"
    and "(?l div 3600000 + 1) * 3600000 \<le> ?l + 3600000"
    by (simp_all add: algebra_simps)
  then show "clock < start" and "start \<le> clock + 3600000"
    by (simp_all add: start_def)
  show "(start + offset) mod 3600000 = 0"
    by (simp add: start_def)
qed

lemma setHours_next_local:
  "setHours_next z clock = UTC z ((LocalTime z clock div 3600000 + 1) * 3600000)"
proof -
  have "Day (LocalTime z clock) * msPerDay + (HourFromTime (LocalTime z clock) + 1) * msPerHour
      = (LocalTime z clock div 3600000 + 1) * 3600000"
    using next_hour_local [of "LocalTime z clock"] by (simp only: msPerHour_def)
  then show ?thesis
    by (simp only: setHours_next_def Let_def)
qed

text \<open>
  What the effect puts into the form.  With a record, each field gets the record's value:
  the subject as it is; description, join link, lead link and contact link as they are,
  the empty string standing for an absent one; start and end time cut to their first
  sixteen characters, which for an ISO timestamp is the date with hours and minutes; the
  status as it is, \<^verbatim>\<open>scheduled\<close> standing for an empty one.  Without a record, the \<^verbatim>\<open>Date\<close>
  of the start is the next full hour of local time and that of the end is sixty minutes
  later; the form holds what \<^verbatim>\<open>toISOString\<close> prints for them, cut to the minute.
\<close>

lemma open_effect_edit_form:
  assumes "p_open pr" and "p_meeting pr = Some m"
  shows "formData (fst (open_effect z clock pr st))
           = \<lparr>f_subject = m_subject m,
              f_description = (case m_description m of None \<Rightarrow> [] | Some v \<Rightarrow> v),
              f_start_time = take 16 (m_start_time m),
              f_end_time = take 16 (m_end_time m),
              f_join_url = (case m_join_url m of None \<Rightarrow> [] | Some v \<Rightarrow> v),
              f_lead_id = (case m_lead_id m of None \<Rightarrow> [] | Some v \<Rightarrow> v),
              f_contact_id = (case m_contact_id m of None \<Rightarrow> [] | Some v \<Rightarrow> v),
              f_status = (if m_status m = [] then ''scheduled'' else m_status m)\<rparr>"
  using assms by (simp add: open_effect_def form_of_meeting_def or_empty_def or_scheduled_def)

lemma open_effect_new_form:
  assumes "p_open pr" and "p_meeting pr = None"
  shows "formData (fst (open_effect z clock pr st))
           = \<lparr>f_subject = [], f_description = [],
              f_start_time = take 16 (toISOString (setHours_next z clock)),
              f_end_time = take 16 (toISOString (setHours_next z clock + 60 * 60 * 1000)),
              f_join_url = [], f_lead_id = [], f_contact_id = [],
              f_status = ''scheduled''\<rparr>"
  using assms by (simp add: open_effect_def form_for_new_def Let_def)

lemma setHours_next_fixed_offset:
  assumes zone: "z = \<lparr>tza_at_utc = (\<lambda>t. offset), tza_at_local = (\<lambda>t. offset)\<rparr>"
  shows "clock < setHours_next z clock"
    and "setHours_next z clock \<le> clock + 60 * 60 * 1000"
    and "LocalTime z (setHours_next z clock) mod (60 * 60 * 1000) = 0"
proof -
  let ?start = "((clock + offset) div 3600000 + 1) * 3600000 - offset"
  have start: "setHours_next z clock = ?start"
    by (simp add: setHours_next_local zone UTC_def LocalTime_def)
  have local: "LocalTime z ?start = ?start + offset"
    by (simp add: zone LocalTime_def)
  have bounds: "clock < ?start \<and> ?start \<le> clock + 60 * 60 * 1000
      \<and> (?start + offset) mod (60 * 60 * 1000) = 0"
    using next_hour_bounds [of clock offset] by simp
  show "clock < setHours_next z clock"
    using bounds by (simp only: start)
  show "setHours_next z clock \<le> clock + 60 * 60 * 1000"
    using bounds by (simp only: start)
  show "LocalTime z (setHours_next z clock) mod (60 * 60 * 1000) = 0"
    using bounds by (simp only: start local)
qed

lemma pad_num_2: "pad_num 2 n = [char_of (48 + n div 10 mod 10), char_of (48 + n mod 10)]"
proof -
  have "pad_num (Suc (Suc 0)) n = [char_of (48 + n div 10 mod 10), char_of (48 + n mod 10)]"
    by simp
  then show ?thesis by (simp only: numeral_2_eq_2)
qed

lemma pad_num_4:
  "pad_num 4 n = [char_of (48 + n div 10 div 10 div 10 mod 10),
                  char_of (48 + n div 10 div 10 mod 10),
                  char_of (48 + n div 10 mod 10), char_of (48 + n mod 10)]"
proof -
  have "(4::nat) = Suc (Suc (Suc (Suc 0)))" by simp
  then show ?thesis by (simp only: pad_num.simps append.simps)
qed

lemma civil_example: "civil_from_days 20759 = (2026, 11, 2)"
  unfolding civil_from_days_def Let_def by simp

lemma iso_example_opening: "take 16 (toISOString 1793640012345) = ''2026-11-02T17:20''"
proof -
  have "Day 1793640012345 = 20759"
    by (simp add: Day_def msPerDay_def)
  then show ?thesis
    by (simp add: toISOString_def civil_example year_string_def HourFromTime_def
        MinFromTime_def msPerHour_def msPerMinute_def pad_num_2 pad_num_4 char_of_eq_iff)
qed

lemma iso_example_17: "take 16 (toISOString 1793638800000) = ''2026-11-02T17:00''"
proof -
  have "Day 1793638800000 = 20759"
    by (simp add: Day_def msPerDay_def)
  then show ?thesis
    by (simp add: toISOString_def civil_example year_string_def HourFromTime_def
        MinFromTime_def msPerHour_def msPerMinute_def pad_num_2 pad_num_4 char_of_eq_iff)
qed

lemma iso_example_18: "take 16 (toISOString 1793642400000) = ''2026-11-02T18:00''"
proof -
  have "Day 1793642400000 = 20759"
    by (simp add: Day_def msPerDay_def)
  then show ?thesis
    by (simp add: toISOString_def civil_example year_string_def HourFromTime_def
        MinFromTime_def msPerHour_def msPerMinute_def pad_num_2 pad_num_4 char_of_eq_iff)
qed

lemma iso_example_16: "take 16 (toISOString 1793635200123) = ''2026-11-02T16:00''"
proof -
  have "Day 1793635200123 = 20759"
    by (simp add: Day_def msPerDay_def)
  then show ?thesis
    by (simp add: toISOString_def civil_example year_string_def HourFromTime_def
        MinFromTime_def msPerHour_def msPerMinute_def pad_num_2 pad_num_4 char_of_eq_iff)
qed

lemma iso_example_11_30: "take 16 (toISOString 1793619000000) = ''2026-11-02T11:30''"
proof -
  have "Day 1793619000000 = 20759"
    by (simp add: Day_def msPerDay_def)
  then show ?thesis
    by (simp add: toISOString_def civil_example year_string_def HourFromTime_def
        MinFromTime_def msPerHour_def msPerMinute_def pad_num_2 pad_num_4 char_of_eq_iff)
qed

lemma iso_example_12_30: "take 16 (toISOString 1793622600000) = ''2026-11-02T12:30''"
proof -
  have "Day 1793622600000 = 20759"
    by (simp add: Day_def msPerDay_def)
  then show ?thesis
    by (simp add: toISOString_def civil_example year_string_def HourFromTime_def
        MinFromTime_def msPerHour_def msPerMinute_def pad_num_2 pad_num_4 char_of_eq_iff)
qed

text \<open>
  Claim C6 says that a dialog opened without a record has the top of the next hour as its
  initial start time, and sixty minutes later as its end time.  The start time of the form
  is the value of a \<^verbatim>\<open>datetime-local\<close> field, a date and time of day without a zone, and
  the \<^verbatim>\<open>Date\<close> the effect computes is the next full hour of local time; but the text it
  puts into the field is the one \<^verbatim>\<open>toISOString\<close> prints, which is in UTC.  In a zone one
  hour ahead of UTC, a dialog opened at 17:20:12 local time on 2 November 2026 has a
  \<^verbatim>\<open>Date\<close> that reads 18:00 local time, and a form whose start time is 17:00, the full
  hour that has begun, and whose end time is 18:00.  In a zone five and a half hours
  ahead, a dialog opened just after 16:00 local time has a \<^verbatim>\<open>Date\<close> that reads 17:00
  local time, and a form whose start time is 11:30, which is no full hour, and whose end
  time is 12:30.
\<close>

theorem open_effect_start_time_not_next_hour:
  "take 16 (toISOString (LocalTime utc_plus_one_zone 1793636412345)) = ''2026-11-02T17:20''
   \<and> take 16 (toISOString (LocalTime utc_plus_one_zone
                 (setHours_next utc_plus_one_zone 1793636412345))) = ''2026-11-02T18:00''
   \<and> formData (fst (open_effect utc_plus_one_zone 1793636412345
       \<lparr>p_open = True, p_meeting = None, p_meeting_ident = 0\<rparr> initial_MeetingState))
     = \<lparr>f_subject = [], f_description = [], f_start_time = ''2026-11-02T17:00'',
        f_end_time = ''2026-11-02T18:00'', f_join_url = [], f_lead_id = [],
        f_contact_id = [], f_status = ''scheduled''\<rparr>
   \<and> take 16 (toISOString (LocalTime india_zone 1793615400123)) = ''2026-11-02T16:00''
   \<and> take 16 (toISOString (LocalTime india_zone
                 (setHours_next india_zone 1793615400123))) = ''2026-11-02T17:00''
   \<and> formData (fst (open_effect india_zone 1793615400123
       \<lparr>p_open = True, p_meeting = None, p_meeting_ident = 0\<rparr> initial_MeetingState))
     = \<lparr>f_subject = [], f_description = [], f_start_time = ''2026-11-02T11:30'',
        f_end_time = ''2026-11-02T12:30'', f_join_url = [], f_lead_id = [],
        f_contact_id = [], f_status = ''scheduled''\<rparr>"
proof -
  have at_opening: "LocalTime utc_plus_one_zone 1793636412345 = 1793640012345"
    by (simp add: utc_plus_one_zone_def LocalTime_def)
  have start: "setHours_next utc_plus_one_zone 1793636412345 = 1793638800000"
    by (simp add: setHours_next_local utc_plus_one_zone_def UTC_def LocalTime_def)
  have local: "LocalTime utc_plus_one_zone 1793638800000 = 1793642400000"
    by (simp add: utc_plus_one_zone_def LocalTime_def)
  have shown: "take 16 (toISOString (LocalTime utc_plus_one_zone 1793636412345))
      = ''2026-11-02T17:20''"
    by (simp only: at_opening iso_example_opening)
  have date: "take 16 (toISOString (LocalTime utc_plus_one_zone
                 (setHours_next utc_plus_one_zone 1793636412345))) = ''2026-11-02T18:00''"
    by (simp only: start local iso_example_18)
  have form: "formData (fst (open_effect utc_plus_one_zone 1793636412345
       \<lparr>p_open = True, p_meeting = None, p_meeting_ident = 0\<rparr> initial_MeetingState))
     = \<lparr>f_subject = [], f_description = [], f_start_time = ''2026-11-02T17:00'',
        f_end_time = ''2026-11-02T18:00'', f_join_url = [], f_lead_id = [],
        f_contact_id = [], f_status = ''scheduled''\<rparr>"
    by (simp add: open_effect_def form_for_new_def Let_def start iso_example_17 iso_example_18)
  have at_opening': "LocalTime india_zone 1793615400123 = 1793635200123"
    by (simp add: india_zone_def LocalTime_def)
  have start': "setHours_next india_zone 1793615400123 = 1793619000000"
    by (simp add: setHours_next_local india_zone_def UTC_def LocalTime_def)
  have local': "LocalTime india_zone 1793619000000 = 1793638800000"
    by (simp add: india_zone_def LocalTime_def)
  have shown': "take 16 (toISOString (LocalTime india_zone 1793615400123))
      = ''2026-11-02T16:00''"
    by (simp only: at_opening' iso_example_16)
  have date': "take 16 (toISOString (LocalTime india_zone
                 (setHours_next india_zone 1793615400123))) = ''2026-11-02T17:00''"
    by (simp only: start' local' iso_example_17)
  have form': "formData (fst (open_effect india_zone 1793615400123
       \<lparr>p_open = True, p_meeting = None, p_meeting_ident = 0\<rparr> initial_MeetingState))
     = \<lparr>f_subject = [], f_description = [], f_start_time = ''2026-11-02T11:30'',
        f_end_time = ''2026-11-02T12:30'', f_join_url = [], f_lead_id = [],
        f_contact_id = [], f_status = ''scheduled''\<rparr>"
    by (simp add: open_effect_def form_for_new_def Let_def start' iso_example_11_30
        iso_example_12_30)
  from shown date form shown' date' form' show ?thesis
    by (intro conjI)
qed

subsection \<open>Generating the conferencing link\<close>

lemma settle_no_network:
  "filter is_network (snd (createTeamsMeeting_settle reply st)) = []"
  by (simp add: createTeamsMeeting_settle_def Let_def split: Reply.split option.split)

lemma settle_success:
  "url \<noteq> [] \<Longrightarrow>
   createTeamsMeeting_settle (Resolved (Some url) None) st
     = (st\<lparr>formData := (formData st)\<lparr>f_join_url := url\<rparr>, creatingTeamsMeeting := False\<rparr>,
        [Toast ''Teams Meeting Created'' ''Meeting link has been generated'' Default])"
  by (simp add: createTeamsMeeting_settle_def)

lemma settle_failure:
  "reply_error reply = Some e \<Longrightarrow>
   createTeamsMeeting_settle reply st
     = (st\<lparr>creatingTeamsMeeting := False\<rparr>,
        [ConsoleError ''Error creating Teams meeting:'',
         Toast ''Error'' (message_or e ''Failed to create Teams meeting'') Destructive])"
  by (simp add: createTeamsMeeting_settle_def reply_error_def split: Reply.splits)

lemma createTeamsMeeting_run:
  "\<not> required_missing (formData st) \<Longrightarrow>
   createTeamsMeeting reply st
     = (fst (createTeamsMeeting_settle reply (st\<lparr>creatingTeamsMeeting := True\<rparr>)),
        FunctionsInvoke ''create-teams-meeting'' (teams_request st)
          # snd (createTeamsMeeting_settle reply (st\<lparr>creatingTeamsMeeting := True\<rparr>)))"
  by (simp add: createTeamsMeeting_def Let_def split_beta)

lemma set_lead_attendee:
  "set (lead_attendee st) =
     {\<lparr>a_email = e, a_name = lead_name l\<rparr> | l e.
        f_lead_id (formData st) \<noteq> []
        \<and> find (\<lambda>l. lead_id l = f_lead_id (formData st)) (leads st) = Some l
        \<and> lead_email l = Some e \<and> e \<noteq> []}"
proof (cases "f_lead_id (formData st) = []")
  case True
  then show ?thesis by (simp add: lead_attendee_def)
next
  case False
  show ?thesis
  proof (cases "find (\<lambda>l. lead_id l = f_lead_id (formData st)) (leads st)")
    case None
    with False show ?thesis by (simp add: lead_attendee_def)
  next
    case (Some lead)
    with False show ?thesis
      by (cases "lead_email lead") (simp_all add: lead_attendee_def)
  qed
qed

lemma set_contact_attendee:
  "set (contact_attendee st) =
     {\<lparr>a_email = e, a_name = cref_contact_name c\<rparr> | c e.
        f_contact_id (formData st) \<noteq> []
        \<and> find (\<lambda>c. cref_id c = f_contact_id (formData st)) (contacts st) = Some c
        \<and> cref_email c = Some e \<and> e \<noteq> []}"
proof (cases "f_contact_id (formData st) = []")
  case True
  then show ?thesis by (simp add: contact_attendee_def)
next
  case False
  show ?thesis
  proof (cases "find (\<lambda>c. cref_id c = f_contact_id (formData st)) (contacts st)")
    case None
    with False show ?thesis by (simp add: contact_attendee_def)
  next
    case (Some contact)
    with False show ?thesis
      by (cases "cref_email contact") (simp_all add: contact_attendee_def)
  qed
qed

text \<open>
  Claim C2, as the code has it.  With a subject, a start time and an end time in the form,
  \<^verbatim>\<open>createTeamsMeeting\<close> makes one remote call, the invocation of
  \<^verbatim>\<open>create-teams-meeting\<close> with the form's subject, start and end time and the attendees:
  the lead of the list whose id is the form's lead link and the contact whose id is the
  form's contact link, each with its name and only if it has a non-empty email address;
  nothing else of what it does goes to the network.  When the reply is a success that
  carries a join URL, that URL becomes the form's join link and the rest of the form
  stays; when the reply is a success without a join URL, the form is as before and
  nothing is shown; when the reply is an error, the form is as before and an error
  notification is shown.
\<close>

theorem createTeamsMeeting_link:
  assumes "f_subject (formData st) \<noteq> []" and "f_start_time (formData st) \<noteq> []"
    and "f_end_time (formData st) \<noteq> []"
  shows "\<exists>attendees rest.
           snd (createTeamsMeeting reply st)
             = FunctionsInvoke ''create-teams-meeting''
                 \<lparr>q_subject = f_subject (formData st), q_attendees = attendees,
                  q_startTime = f_start_time (formData st),
                  q_endTime = f_end_time (formData st)\<rparr> # rest
           \<and> filter is_network rest = []
           \<and> set attendees =
               {\<lparr>a_email = e, a_name = lead_name l\<rparr> | l e.
                  f_lead_id (formData st) \<noteq> []
                  \<and> find (\<lambda>l. lead_id l = f_lead_id (formData st)) (leads st) = Some l
                  \<and> lead_email l = Some e \<and> e \<noteq> []}
               \<union> {\<lparr>a_email = e, a_name = cref_contact_name c\<rparr> | c e.
                  f_contact_id (formData st) \<noteq> []
                  \<and> find (\<lambda>c. cref_id c = f_contact_id (formData st)) (contacts st) = Some c
                  \<and> cref_email c = Some e \<and> e \<noteq> []}
           \<and> length attendees \<le> 2
           \<and> (\<forall>url. reply = Resolved (Some url) None \<and> url \<noteq> []
                 \<longrightarrow> formData (fst (createTeamsMeeting reply st))
                       = (formData st)\<lparr>f_join_url := url\<rparr>)
           \<and> (reply = Resolved None None \<or> reply = Resolved (Some []) None
                 \<longrightarrow> formData (fst (createTeamsMeeting reply st)) = formData st \<and> rest = [])
           \<and> (\<forall>e. reply_error reply = Some e
                 \<longrightarrow> formData (fst (createTeamsMeeting reply st)) = formData st
                     \<and> (\<exists>msg. Toast ''Error'' msg Destructive \<in> set rest))"
proof -
  let ?st1 = "st\<lparr>creatingTeamsMeeting := True\<rparr>"
  let ?rest = "snd (createTeamsMeeting_settle reply ?st1)"
  from assms have ok: "\<not> required_missing (formData st)"
    by (simp add: required_missing_def)
  have run: "createTeamsMeeting reply st
      = (fst (createTeamsMeeting_settle reply ?st1),
         FunctionsInvoke ''create-teams-meeting'' (teams_request st) # ?rest)"
    using ok by (rule createTeamsMeeting_run)
  have call: "snd (createTeamsMeeting reply st)
      = FunctionsInvoke ''create-teams-meeting''
          \<lparr>q_subject = f_subject (formData st),
           q_attendees = lead_attendee st @ contact_attendee st,
           q_startTime = f_start_time (formData st),
           q_endTime = f_end_time (formData st)\<rparr> # ?rest"
    by (simp add: run teams_request_def)
  have quiet: "filter is_network ?rest = []"
    by (rule settle_no_network)
  have who: "set (lead_attendee st @ contact_attendee st) =
               {\<lparr>a_email = e, a_name = lead_name l\<rparr> | l e.
                  f_lead_id (formData st) \<noteq> []
                  \<and> find (\<lambda>l. lead_id l = f_lead_id (formData st)) (leads st) = Some l
                  \<and> lead_email l = Some e \<and> e \<noteq> []}
               \<union> {\<lparr>a_email = e, a_name = cref_contact_name c\<rparr> | c e.
                  f_contact_id (formData st) \<noteq> []
                  \<and> find (\<lambda>c. cref_id c = f_contact_id (formData st)) (contacts st) = Some c
                  \<and> cref_email c = Some e \<and> e \<noteq> []}"
    by (simp only: set_append set_lead_attendee set_contact_attendee)
  have few: "length (lead_attendee st @ contact_attendee st) \<le> 2"
    by (simp add: lead_attendee_def contact_attendee_def split: option.split)
  have good: "\<forall>url. reply = Resolved (Some url) None \<and> url \<noteq> []
      \<longrightarrow> formData (fst (createTeamsMeeting reply st)) = (formData st)\<lparr>f_join_url := url\<rparr>"
    by (simp add: createTeamsMeeting_run [OF ok] settle_success)
  have bad: "\<forall>e. reply_error reply = Some e
      \<longrightarrow> formData (fst (createTeamsMeeting reply st)) = formData st
          \<and> (\<exists>msg. Toast ''Error'' msg Destructive \<in> set ?rest)"
    by (simp add: createTeamsMeeting_run [OF ok] settle_failure)
  have none: "reply = Resolved None None \<or> reply = Resolved (Some []) None
      \<longrightarrow> formData (fst (createTeamsMeeting reply st)) = formData st \<and> ?rest = []"
    by (auto simp: createTeamsMeeting_run [OF ok] createTeamsMeeting_settle_def)
  from call quiet who few good none bad show ?thesis
    by blast
qed

theorem createTeamsMeeting_link_witness:
  "f_subject (formData example_meeting_state) \<noteq> []
   \<and> f_start_time (formData example_meeting_state) \<noteq> []
   \<and> f_end_time (formData example_meeting_state) \<noteq> []
   \<and> snd (createTeamsMeeting (Resolved (Some ''https://teams.example/j/1'') None)
            example_meeting_state)
       = [FunctionsInvoke ''create-teams-meeting''
            \<lparr>q_subject = ''Review'',
             q_attendees = [\<lparr>a_email = ''lee@acme.test'', a_name = ''Lee''\<rparr>],
             q_startTime = ''2026-11-02T10:00'', q_endTime = ''2026-11-02T11:00''\<rparr>,
          Toast ''Teams Meeting Created'' ''Meeting link has been generated'' Default]
   \<and> f_join_url (formData (fst (createTeamsMeeting
          (Resolved (Some ''https://teams.example/j/1'') None) example_meeting_state)))
       = ''https://teams.example/j/1''
   \<and> f_join_url (formData (fst (createTeamsMeeting
          (Resolved None (Some \<lparr>message = Some ''quota exceeded''\<rparr>)) example_meeting_state)))
       = ''https://old.example/j/0''"
  using createTeamsMeeting_link
    [of example_meeting_state "Resolved (Some ''https://teams.example/j/1'') None"]
    createTeamsMeeting_link
    [of example_meeting_state "Resolved None (Some \<lparr>message = Some ''quota exceeded''\<rparr>)"]
  by (simp add: example_meeting_state_def createTeamsMeeting_def required_missing_def
      createTeamsMeeting_settle_def teams_request_def lead_attendee_def contact_attendee_def
      Let_def)

text \<open>
  The claim as it was worded does not hold for a successful reply that carries no join
  URL, or an empty one: the join link of the form stays what it was, and nothing is
  shown.
\<close>

theorem createTeamsMeeting_link_counterexample:
  "reply_error (Resolved None None :: string Reply) = None
   \<and> f_join_url (formData (fst (createTeamsMeeting (Resolved None None)
          example_meeting_state))) = ''https://old.example/j/0''
   \<and> snd (createTeamsMeeting (Resolved None None) example_meeting_state)
       = [FunctionsInvoke ''create-teams-meeting'' (teams_request example_meeting_state)]
   \<and> reply_error (Resolved (Some []) None :: string Reply) = None
   \<and> f_join_url (formData (fst (createTeamsMeeting (Resolved (Some []) None)
          example_meeting_state))) = ''https://old.example/j/0''"
  by (simp add: reply_error_def example_meeting_state_def createTeamsMeeting_def
      required_missing_def createTeamsMeeting_settle_def)

subsection \<open>Submitting\<close>

text \<open>
  Claim C4.  When the subject, the start time or the end time of the form is empty,
  \<^verbatim>\<open>handleSubmit\<close> does nothing but show the notification \<^verbatim>\<open>Missing fields\<close>: the state
  is as before and no call goes to the backend, so no insert and no update.
\<close>

theorem handleSubmit_blank_field:
  assumes "f_subject (formData st) = [] \<or> f_start_time (formData st) = []
           \<or> f_end_time (formData st) = []"
  shows "handleSubmit pr user reply st
           = (st, [Toast ''Missing fields'' ''Please fill in all required fields'' Destructive])
         \<and> filter is_network (snd (handleSubmit pr user reply st)) = []"
  using assms by (simp add: handleSubmit_def required_missing_def)

theorem handleSubmit_blank_field_witness:
  "f_start_time (formData (initial_MeetingState
       \<lparr>formData := initial_formData\<lparr>f_subject := ''Review''\<rparr>\<rparr>)) = []
   \<and> snd (handleSubmit \<lparr>p_open = True, p_meeting = None, p_meeting_ident = 0\<rparr> (Some ''user-1'')
             (Resolved None None)
             (initial_MeetingState\<lparr>formData := initial_formData\<lparr>f_subject := ''Review''\<rparr>\<rparr>))
       = [Toast ''Missing fields'' ''Please fill in all required fields'' Destructive]"
  using handleSubmit_blank_field
    [of "initial_MeetingState\<lparr>formData := initial_formData\<lparr>f_subject := ''Review''\<rparr>\<rparr>"
      "\<lparr>p_open = True, p_meeting = None, p_meeting_ident = 0\<rparr>" "Some ''user-1''"
      "Resolved None None"]
  by (simp add: initial_MeetingState_def initial_formData_def)

lemma rows_of_write_call: "rows_of (write_call pr row) = [row]"
  by (simp add: write_call_def split: option.split)

lemma written_rows_settle: "written_rows (snd (handleSubmit_settle pr reply st)) = []"
  by (simp add: handleSubmit_settle_def written_rows_def split: option.split)

lemma written_rows_handleSubmit:
  "\<not> required_missing (formData st) \<Longrightarrow>
   written_rows (snd (handleSubmit pr user reply st)) = [meetingData user (formData st)]"
  using written_rows_settle [of pr reply "st\<lparr>loading := True\<rparr>"]
  by (simp add: handleSubmit_def Let_def split_beta written_rows_def rows_of_write_call)

text \<open>
  Claim C5.  A submission that passes the check of the required fields writes one row,
  whatever the backend then answers.  In that row each of description, join URL, lead
  link and contact link is \<^verbatim>\<open>null\<close> when the form's value is the empty string and the
  form's value otherwise, so it is never the empty string.
\<close>

theorem handleSubmit_writes_null_for_empty:
  assumes "f_subject (formData st) \<noteq> []" and "f_start_time (formData st) \<noteq> []"
    and "f_end_time (formData st) \<noteq> []"
  shows "\<exists>row. written_rows (snd (handleSubmit pr user reply st)) = [row]
           \<and> r_description row = (if f_description (formData st) = [] then None
                                    else Some (f_description (formData st)))
           \<and> r_join_url row = (if f_join_url (formData st) = [] then None
                                 else Some (f_join_url (formData st)))
           \<and> r_lead_id row = (if f_lead_id (formData st) = [] then None
                                else Some (f_lead_id (formData st)))
           \<and> r_contact_id row = (if f_contact_id (formData st) = [] then None
                                   else Some (f_contact_id (formData st)))
           \<and> Some [] \<notin> {r_description row, r_join_url row, r_lead_id row, r_contact_id row}"
proof -
  from assms have "\<not> required_missing (formData st)"
    by (simp add: required_missing_def)
  then have "written_rows (snd (handleSubmit pr user reply st)) = [meetingData user (formData st)]"
    by (rule written_rows_handleSubmit)
  then show ?thesis
    by (simp add: meetingData_def or_null_def)
qed

theorem handleSubmit_writes_null_for_empty_witness:
  "f_subject (formData (initial_MeetingState\<lparr>formData :=
       \<lparr>f_subject = ''Review'', f_description = [], f_start_time = ''2026-11-02T10:00'',
        f_end_time = ''2026-11-02T11:00'', f_join_url = [], f_lead_id = ''lead-7'',
        f_contact_id = [], f_status = ''scheduled''\<rparr>\<rparr>)) \<noteq> []
   \<and> written_rows (snd (handleSubmit \<lparr>p_open = True, p_meeting = None, p_meeting_ident = 0\<rparr>
         (Some ''user-1'') (Resolved None None)
         (initial_MeetingState\<lparr>formData :=
            \<lparr>f_subject = ''Review'', f_description = [], f_start_time = ''2026-11-02T10:00'',
             f_end_time = ''2026-11-02T11:00'', f_join_url = [], f_lead_id = ''lead-7'',
             f_contact_id = [], f_status = ''scheduled''\<rparr>\<rparr>)))
       = [\<lparr>r_subject = ''Review'', r_description = None, r_start_time = ''2026-11-02T10:00'',
           r_end_time = ''2026-11-02T11:00'', r_join_url = None, r_lead_id = Some ''lead-7'',
           r_contact_id = None, r_status = ''scheduled'', r_created_by = Some ''user-1''\<rparr>]"
  using handleSubmit_writes_null_for_empty
    [of "initial_MeetingState\<lparr>formData :=
            \<lparr>f_subject = ''Review'', f_description = [], f_start_time = ''2026-11-02T10:00'',
             f_end_time = ''2026-11-02T11:00'', f_join_url = [], f_lead_id = ''lead-7'',
             f_contact_id = [], f_status = ''scheduled''\<rparr>\<rparr>"
      "\<lparr>p_open = True, p_meeting = None, p_meeting_ident = 0\<rparr>" "Some ''user-1''"
      "Resolved None None"]
  by (simp add: initial_MeetingState_def handleSubmit_def required_missing_def Let_def
      handleSubmit_settle_def reply_error_def write_call_def written_rows_def meetingData_def
      or_null_def)

subsection \<open>The path of a submission\<close>

lemma is_write_write_call: "is_write (write_call pr row)"
  by (simp add: write_call_def split: option.split)

lemma settle_no_write: "filter is_write (snd (handleSubmit_settle pr reply st)) = []"
  by (simp add: handleSubmit_settle_def split: option.split)

lemma handleSubmit_writes:
  "filter is_write (snd (handleSubmit pr user reply st))
     = (if required_missing (formData st) then []
        else [write_call pr (meetingData user (formData st))])"
  using settle_no_write [of pr reply "st\<lparr>loading := True\<rparr>"]
  by (simp add: handleSubmit_def Let_def split_beta is_write_write_call)

lemma step_keeps_meeting:
  assumes "keeps_meeting (p_meeting (props d)) e"
  shows "p_meeting (props (fst (step z user e d))) = p_meeting (props d)"
proof (cases e)
  case (Render pr clock)
  with assms have "p_meeting pr = p_meeting (props d)" by simp
  with Render show ?thesis by (simp add: split_beta)
next
  case (Change field v)
  then show ?thesis by simp
next
  case (Submit reply)
  then show ?thesis by (simp add: split_beta)
next
  case (CreateTeams reply)
  then show ?thesis by (simp add: split_beta)
next
  case (Fetched outcome)
  then show ?thesis by (simp add: split_beta)
qed

lemma run_Cons:
  "run z user (e # es) d
     = (fst (run z user es (fst (step z user e d))),
        snd (step z user e d) # snd (run z user es (fst (step z user e d))))"
  by (simp add: split_beta)

lemma run_keeps_meeting:
  assumes "list_all (keeps_meeting (p_meeting (props d))) es"
  shows "p_meeting (props (fst (run z user es d))) = p_meeting (props d)"
  using assms
proof (induction es arbitrary: d)
  case Nil
  show ?case by simp
next
  case (Cons e es)
  let ?d1 = "fst (step z user e d)"
  from Cons.prems have "keeps_meeting (p_meeting (props d)) e"
    and rest: "list_all (keeps_meeting (p_meeting (props d))) es"
    by simp_all
  then have first: "p_meeting (props ?d1) = p_meeting (props d)"
    by (simp add: step_keeps_meeting)
  with rest have "list_all (keeps_meeting (p_meeting (props ?d1))) es"
    by simp
  then have "p_meeting (props (fst (run z user es ?d1))) = p_meeting (props ?d1)"
    by (rule Cons.IH)
  then have "p_meeting (props (fst (run z user es ?d1))) = p_meeting (props d)"
    using first by (rule trans)
  then show ?case
    by (simp only: run_Cons fst_conv)
qed

lemma form_for_new_subject: "f_subject (form_for_new z clock) = []"
  by (simp add: form_for_new_def Let_def)

text \<open>
  Claim C3, as the code has it.  A submission whose form passes the check of the required
  fields makes exactly one write, an update of the row with the record's id when the
  props of the render in which the form is submitted carry a meeting record, and an
  insert when they carry none; a submission that fails the check makes no write.  The
  dialog stores no mode: the choice is read from the props at each submission, so it is
  the one of the opening exactly as long as the parent goes on passing the same record.
\<close>

theorem submit_path:
  "filter is_write (snd (step z user (Submit reply) d))
     = (if required_missing (formData (state d)) then []
        else [case p_meeting (props d) of
                Some meeting \<Rightarrow>
                  DbUpdate ''meetings'' (meetingData user (formData (state d))) (m_id meeting)
              | None \<Rightarrow> DbInsert ''meetings'' [meetingData user (formData (state d))]])
   \<and> (list_all (keeps_meeting (p_meeting (props d))) es
        \<longrightarrow> p_meeting (props (fst (run z user es d))) = p_meeting (props d))"
proof (intro conjI impI)
  show "filter is_write (snd (step z user (Submit reply) d))
     = (if required_missing (formData (state d)) then []
        else [case p_meeting (props d) of
                Some meeting \<Rightarrow>
                  DbUpdate ''meetings'' (meetingData user (formData (state d))) (m_id meeting)
              | None \<Rightarrow> DbInsert ''meetings'' [meetingData user (formData (state d))]])"
    by (simp add: handleSubmit_writes split_beta write_call_def)
next
  assume "list_all (keeps_meeting (p_meeting (props d))) es"
  then show "p_meeting (props (fst (run z user es d))) = p_meeting (props d)"
    by (rule run_keeps_meeting)
qed

theorem submit_path_witness:
  "list_all (keeps_meeting (p_meeting (props closed_dialog)))
     [Render \<lparr>p_open = True, p_meeting = None, p_meeting_ident = 0\<rparr> 1793615400123,
      Change Subject ''Review'', Fetched (FetchResolved (Some [], None) (Some [], None))]
   \<and> p_meeting (props (fst (run utc_zone (Some ''user-1'')
       [Render \<lparr>p_open = True, p_meeting = None, p_meeting_ident = 0\<rparr> 1793615400123,
        Change Subject ''Review'', Fetched (FetchResolved (Some [], None) (Some [], None))]
       closed_dialog))) = None
   \<and> filter is_write (snd (step utc_zone (Some ''user-1'') (Submit (Resolved None None))
       \<lparr>props = \<lparr>p_open = True, p_meeting = None, p_meeting_ident = 0\<rparr>,
        state = example_meeting_state\<rparr>))
     = [DbInsert ''meetings''
          [\<lparr>r_subject = ''Review'', r_description = None,
            r_start_time = ''2026-11-02T10:00'', r_end_time = ''2026-11-02T11:00'',
            r_join_url = Some ''https://old.example/j/0'', r_lead_id = Some ''lead-7'',
            r_contact_id = Some ''contact-3'', r_status = ''scheduled'',
            r_created_by = Some ''user-1''\<rparr>]]"
  using submit_path
    [of utc_zone "Some ''user-1''" "Resolved None None"
      "\<lparr>props = \<lparr>p_open = True, p_meeting = None, p_meeting_ident = 0\<rparr>,
        state = example_meeting_state\<rparr>" "[]"]
    submit_path
    [of utc_zone "Some ''user-1''" "Resolved None None" closed_dialog
      "[Render \<lparr>p_open = True, p_meeting = None, p_meeting_ident = 0\<rparr> 1793615400123,
        Change Subject ''Review'', Fetched (FetchResolved (Some [], None) (Some [], None))]"]
  by (simp add: closed_dialog_def mount_def open_effect_def split_beta example_meeting_state_def
      required_missing_def meetingData_def or_null_def)

text \<open>
  The claim as it was worded does not hold.  A dialog that was opened without a record
  and then gets one from its parent updates that record on submission; and a submission
  with an empty subject takes neither path.
\<close>

theorem submit_path_counterexample:
  "p_meeting (props (fst (run utc_zone (Some ''user-1'')
       [Render \<lparr>p_open = True, p_meeting = None, p_meeting_ident = 0\<rparr> 1793615400123]
       closed_dialog))) = None
   \<and> filter is_write (last (snd (run utc_zone (Some ''user-1'')
       [Render \<lparr>p_open = True, p_meeting = None, p_meeting_ident = 0\<rparr> 1793615400123,
        Render \<lparr>p_open = True, p_meeting = Some example_meeting, p_meeting_ident = 1\<rparr>
          1793615460000,
        Submit (Resolved None None)]
       closed_dialog)))
     = [DbUpdate ''meetings''
          \<lparr>r_subject = ''Kickoff'', r_description = None, r_start_time = ''2026-11-05T09:30'',
           r_end_time = ''2026-11-05T10:15'', r_join_url = None, r_lead_id = Some ''lead-7'',
           r_contact_id = None, r_status = ''scheduled'', r_created_by = Some ''user-1''\<rparr>
          ''meeting-9'']
   \<and> filter is_write (last (snd (run utc_zone (Some ''user-1'')
       [Render \<lparr>p_open = True, p_meeting = None, p_meeting_ident = 0\<rparr> 1793615400123,
        Submit (Resolved None None)]
       closed_dialog))) = []"
  by (simp add: closed_dialog_def mount_def open_effect_def deps_changed_def split_beta
      handleSubmit_def handleSubmit_settle_def required_missing_def form_for_new_subject
      form_of_meeting_def example_meeting_def write_call_def meetingData_def or_null_def
      or_empty_def or_scheduled_def reply_error_def fetchLeadsAndContacts_calls_def)

subsection \<open>Failures of the remote calls\<close>

lemma message_or_cases:
  "message_or e fallback
     = (case message e of None \<Rightarrow> fallback | Some m \<Rightarrow> if m = [] then fallback else m)"
  by (simp add: message_or_def)

lemma handleSubmit_failure:
  assumes "\<not> required_missing (formData st)" and "reply_error reply = Some e"
  shows "handleSubmit pr user reply st
     = (st\<lparr>loading := False\<rparr>,
        [write_call pr (meetingData user (formData st)),
         ConsoleError ''Error saving meeting:'',
         Toast ''Error'' (message_or e ''Failed to save meeting'') Destructive])"
  using assms by (simp add: handleSubmit_def handleSubmit_settle_def)

lemma createTeamsMeeting_failure:
  assumes "\<not> required_missing (formData st)" and "reply_error reply = Some e"
  shows "createTeamsMeeting reply st
     = (st\<lparr>creatingTeamsMeeting := False\<rparr>,
        [FunctionsInvoke ''create-teams-meeting'' (teams_request st),
         ConsoleError ''Error creating Teams meeting:'',
         Toast ''Error'' (message_or e ''Failed to create Teams meeting'') Destructive])"
  using assms by (simp add: createTeamsMeeting_run settle_failure)

lemma fetchTemplates_failure:
  "reply_error reply = Some e \<Longrightarrow>
   fetchTemplates_settle reply st = (st, [ConsoleError ''Error fetching templates:''])"
  by (simp add: fetchTemplates_settle_def reply_error_def split: Reply.splits)

text \<open>
  Claim C8, as the code has it.  A failure of the insert or update of a meeting and a
  failure of the remote function are caught where the call is made, logged, and shown in
  an error notification that carries the error's message when it has a non-empty one and
  a fixed text otherwise; the form and the lists stay as they are and the dialog is not
  closed.  A failure of the fetch of the templates and a rejection of the fetch of leads
  and contacts are caught and logged, and nothing is shown; error results of the two
  queries for leads and contacts are not read at all.  In each case the lists and the
  form stay as they are.
\<close>

theorem remote_failure_handling:
  "(\<not> required_missing (formData st) \<and> reply_error submit_reply = Some e
      \<longrightarrow> handleSubmit pr user submit_reply st
            = (st\<lparr>loading := False\<rparr>,
               [write_call pr (meetingData user (formData st)),
                ConsoleError ''Error saving meeting:'',
                Toast ''Error''
                  (case message e of
                     None \<Rightarrow> ''Failed to save meeting''
                   | Some m \<Rightarrow> if m = [] then ''Failed to save meeting'' else m)
                  Destructive]))
   \<and> (\<not> required_missing (formData st) \<and> reply_error invoke_reply = Some e
      \<longrightarrow> createTeamsMeeting invoke_reply st
            = (st\<lparr>creatingTeamsMeeting := False\<rparr>,
               [FunctionsInvoke ''create-teams-meeting'' (teams_request st),
                ConsoleError ''Error creating Teams meeting:'',
                Toast ''Error''
                  (case message e of
                     None \<Rightarrow> ''Failed to create Teams meeting''
                   | Some m \<Rightarrow> if m = [] then ''Failed to create Teams meeting'' else m)
                  Destructive]))
   \<and> (reply_error templates_reply = Some e
      \<longrightarrow> fetchTemplates_settle templates_reply est
            = (est, [ConsoleError ''Error fetching templates:'']))
   \<and> fetchLeadsAndContacts_settle (FetchRejected e) st
       = (st, [ConsoleError ''Error fetching leads/contacts:''])
   \<and> fetchLeadsAndContacts_settle (FetchResolved (None, Some e) (None, Some e)) st = (st, [])"
  by (simp add: handleSubmit_failure createTeamsMeeting_failure fetchTemplates_failure
      message_or_cases fetchLeadsAndContacts_settle_def)

theorem remote_failure_handling_witness:
  "\<not> required_missing (formData example_meeting_state)
   \<and> reply_error (Rejected \<lparr>message = Some ''row violates policy''\<rparr> :: unit Reply)
       = Some \<lparr>message = Some ''row violates policy''\<rparr>
   \<and> handleSubmit \<lparr>p_open = True, p_meeting = None, p_meeting_ident = 0\<rparr> (Some ''user-1'')
        (Rejected \<lparr>message = Some ''row violates policy''\<rparr>) example_meeting_state
       = (example_meeting_state,
          [DbInsert ''meetings''
             [\<lparr>r_subject = ''Review'', r_description = None,
               r_start_time = ''2026-11-02T10:00'', r_end_time = ''2026-11-02T11:00'',
               r_join_url = Some ''https://old.example/j/0'', r_lead_id = Some ''lead-7'',
               r_contact_id = Some ''contact-3'', r_status = ''scheduled'',
               r_created_by = Some ''user-1''\<rparr>],
           ConsoleError ''Error saving meeting:'',
           Toast ''Error'' ''row violates policy'' Destructive])
   \<and> snd (createTeamsMeeting (Rejected \<lparr>message = Some ''row violates policy''\<rparr>)
        example_meeting_state)
       = [FunctionsInvoke ''create-teams-meeting'' (teams_request example_meeting_state),
          ConsoleError ''Error creating Teams meeting:'',
          Toast ''Error'' ''row violates policy'' Destructive]
   \<and> fetchTemplates_settle (Rejected \<lparr>message = Some ''row violates policy''\<rparr>)
        \<lparr>templates = [], selectedTemplate = [], subject = ''Hello'', body = []\<rparr>
       = (\<lparr>templates = [], selectedTemplate = [], subject = ''Hello'', body = []\<rparr>,
          [ConsoleError ''Error fetching templates:''])"
  using remote_failure_handling
    [of example_meeting_state "Rejected \<lparr>message = Some ''row violates policy''\<rparr>"
      "\<lparr>message = Some ''row violates policy''\<rparr>"
      "\<lparr>p_open = True, p_meeting = None, p_meeting_ident = 0\<rparr>" "Some ''user-1''"
      "Rejected \<lparr>message = Some ''row violates policy''\<rparr>"
      "Rejected \<lparr>message = Some ''row violates policy''\<rparr>"
      "\<lparr>templates = [], selectedTemplate = [], subject = ''Hello'', body = []\<rparr>"]
  by (simp add: example_meeting_state_def required_missing_def reply_error_def write_call_def
      meetingData_def or_null_def)

text \<open>
  The claim as it was worded does not hold: a failed fetch of the templates, or of the
  leads and contacts, shows no notification.
\<close>

theorem fetch_failure_not_notified:
  "filter is_toast
     (snd (fetchTemplates_settle (Rejected \<lparr>message = Some ''Failed to fetch''\<rparr>)
        \<lparr>templates = [], selectedTemplate = [], subject = ''Hello'', body = []\<rparr>)) = []
   \<and> filter is_toast
     (snd (fetchLeadsAndContacts_settle (FetchRejected \<lparr>message = Some ''Failed to fetch''\<rparr>)
        example_meeting_state)) = []"
  by (simp add: fetchTemplates_settle_def fetchLeadsAndContacts_settle_def)


section \<open>Properties of the settings shell\<close>

text \<open>
  Claim C9.  For a caller whose role is not \<^verbatim>\<open>admin\<close>, no item of the rendered menu is
  flagged admin-only: the menu is then the four personal items and the session item.  The
  panel is a function of the active key alone, given by a fixed table over the ids of the
  menu items: each id has the panel of its name, \<^verbatim>\<open>user-directory\<close> and \<^verbatim>\<open>role-management\<close>
  sharing the user management panel.  The initial key \<^verbatim>\<open>profile\<close> gives the profile panel,
  and so does every key that is the id of no menu item.
\<close>

theorem settings_menu_and_panel:
  "(userRole \<noteq> Some ''admin''
      \<longrightarrow> (\<forall>item \<in> set (rendered_items userRole). \<not> adminOnly item)
        \<and> map item_id (rendered_items userRole)
            = [''profile'', ''password-security'', ''notifications'', ''display'',
               ''session-management''])
   \<and> map (\<lambda>key. (key, renderContent key)) (map item_id (concat (map items menuSections)))
       = [(''profile'', ProfileSettings),
          (''password-security'', SecuritySettings),
          (''notifications'', NotificationSettings),
          (''display'', DisplaySettings),
          (''user-directory'', UserManagement),
          (''role-management'', UserManagement),
          (''page-access'', PageAccessSettings),
          (''pipeline'', PipelineSettings),
          (''email-templates'', EmailTemplatesSettings),
          (''backup'', BackupRestoreSettings),
          (''integrations'', IntegrationSettings),
          (''audit-logs'', AuditLogsSettings),
          (''session-management'', SessionManagementSettings)]
   \<and> renderContent initial_activeTab = ProfileSettings
   \<and> (activeTab \<notin> set (map item_id (concat (map items menuSections)))
        \<longrightarrow> renderContent activeTab = ProfileSettings)"
proof -
  have menu: "userRole \<noteq> Some ''admin''
      \<longrightarrow> (\<forall>item \<in> set (rendered_items userRole). \<not> adminOnly item)
        \<and> map item_id (rendered_items userRole)
            = [''profile'', ''password-security'', ''notifications'', ''display'',
               ''session-management'']"
  proof
    assume role: "userRole \<noteq> Some ''admin''"
    have flagged: "\<forall>item \<in> set (rendered_items userRole). \<not> adminOnly item"
      using role by (auto simp: rendered_items_def rendered_menu_def visibleItems_def isAdmin_def)
    have ids: "map item_id (rendered_items userRole)
        = [''profile'', ''password-security'', ''notifications'', ''display'',
           ''session-management'']"
      using role
      by (simp add: rendered_items_def rendered_menu_def visibleItems_def isAdmin_def
          menuSections_def)
    from flagged ids show "(\<forall>item \<in> set (rendered_items userRole). \<not> adminOnly item)
        \<and> map item_id (rendered_items userRole)
            = [''profile'', ''password-security'', ''notifications'', ''display'',
               ''session-management'']"
      by (rule conjI)
  qed
  have table: "map (\<lambda>key. (key, renderContent key))
        (map item_id (concat (map items menuSections)))
       = [(''profile'', ProfileSettings),
          (''password-security'', SecuritySettings),
          (''notifications'', NotificationSettings),
          (''display'', DisplaySettings),
          (''user-directory'', UserManagement),
          (''role-management'', UserManagement),
          (''page-access'', PageAccessSettings),
          (''pipeline'', PipelineSettings),
          (''email-templates'', EmailTemplatesSettings),
          (''backup'', BackupRestoreSettings),
          (''integrations'', IntegrationSettings),
          (''audit-logs'', AuditLogsSettings),
          (''session-management'', SessionManagementSettings)]"
    by (simp add: menuSections_def renderContent_def)
  have initial: "renderContent initial_activeTab = ProfileSettings"
    by (simp add: renderContent_def initial_activeTab_def)
  have fallback: "activeTab \<notin> set (map item_id (concat (map items menuSections)))
        \<longrightarrow> renderContent activeTab = ProfileSettings"
    by (simp add: menuSections_def renderContent_def)
  show ?thesis
    by (intro conjI menu table initial fallback)
qed

theorem settings_menu_and_panel_witness:
  "Some ''member'' \<noteq> Some ''admin''
   \<and> map item_id (rendered_items (Some ''member''))
       = [''profile'', ''password-security'', ''notifications'', ''display'', ''session-management'']
   \<and> list_all (\<lambda>item. \<not> adminOnly item) (rendered_items (Some ''member''))
   \<and> renderContent ''pipeline'' = PipelineSettings
   \<and> renderContent ''role-management'' = UserManagement
   \<and> ''billing'' \<notin> set (map item_id (concat (map items menuSections)))
   \<and> renderContent ''billing'' = ProfileSettings"
proof -
  note main = settings_menu_and_panel [of "Some ''member''" "''billing''"]
  have role: "Some ''member'' \<noteq> Some ''admin''"
    by simp
  have key: "''billing'' \<notin> set (map item_id (concat (map items menuSections)))"
    by (simp add: menuSections_def)
  have menu: "(\<forall>item \<in> set (rendered_items (Some ''member'')). \<not> adminOnly item)
      \<and> map item_id (rendered_items (Some ''member''))
          = [''profile'', ''password-security'', ''notifications'', ''display'',
             ''session-management'']"
    using main [THEN conjunct1] role by (rule mp)
  have table: "map (\<lambda>key. (key, renderContent key))
        (map item_id (concat (map items menuSections)))
       = [(''profile'', ProfileSettings),
          (''password-security'', SecuritySettings),
          (''notifications'', NotificationSettings),
          (''display'', DisplaySettings),
          (''user-directory'', UserManagement),
          (''role-management'', UserManagement),
          (''page-access'', PageAccessSettings),
          (''pipeline'', PipelineSettings),
          (''email-templates'', EmailTemplatesSettings),
          (''backup'', BackupRestoreSettings),
          (''integrations'', IntegrationSettings),
          (''audit-logs'', AuditLogsSettings),
          (''session-management'', SessionManagementSettings)]"
    by (rule main [THEN conjunct2, THEN conjunct1])
  have pipeline: "renderContent ''pipeline'' = PipelineSettings"
    and roles: "renderContent ''role-management'' = UserManagement"
    using table by (simp_all add: menuSections_def)
  have fallback: "renderContent ''billing'' = ProfileSettings"
    using main [THEN conjunct2, THEN conjunct2, THEN conjunct2] key by (rule mp)
  from menu have flagged: "list_all (\<lambda>item. \<not> adminOnly item) (rendered_items (Some ''member''))"
    by (simp add: list_all_iff)
  from role menu [THEN conjunct2] flagged pipeline roles key fallback show ?thesis
    by (intro conjI)
qed

end
